theory Spec2Isabelle
  imports Complex_Main
begin

section \<open>The blocked Gibbs sampler of nbinom_HDP.py\<close>

text \<open>
  The theory embeds \<^verbatim>\<open>NBinomModel\<close> (its constructor, \<^verbatim>\<open>update\<close> and the four
  \<^verbatim>\<open>_update_*\<close> methods), \<^verbatim>\<open>_compute_loglik\<close> and \<^verbatim>\<open>_update_group_vars\<close>.

  Conventions of the embedding.
  \<^item> numpy arrays are lists (a matrix is a list of rows); the object \<^verbatim>\<open>self\<close> is
    the record \<open>model\<close>, passed in and returned updated.
  \<^item> The random draws of \<^verbatim>\<open>numpy.random\<close> are arguments of the functions
    (records \<open>init_draws\<close>, \<open>sweep_draws\<close>, \<open>group_draws\<close>), and so are the
    samplers of \<^verbatim>\<open>dgeclust.stats\<close>, which are not part of the source file.
  \<^item> The exceptions numpy raises on an index out of range or on arrays that do not fit
    are values of type \<open>error\<close>; a function that can raise returns \<open>error + 'a\<close>.
  \<^item> Sampled parameters and hyper-parameters are finite doubles, modelled as reals
    (no rounding). A log-likelihood is a value \<open>fval\<close>, which can also be an
    infinity or NaN, with the IEEE rules for \<open>+\<close>, \<open>-\<close>, \<open>exp\<close> and \<open>>\<close>.
\<close>

subsection \<open>Errors\<close>

datatype error = IndexError | ValueError

type_synonym 'a result = "error + 'a"

definition rbind :: "'a result \<Rightarrow> ('a \<Rightarrow> 'b result) \<Rightarrow> 'b result" where
  "rbind r f = (case r of Inl e \<Rightarrow> Inl e | Inr x \<Rightarrow> f x)"

fun mapM :: "('a \<Rightarrow> 'b result) \<Rightarrow> 'a list \<Rightarrow> 'b list result" where
  "mapM f [] = Inr []"
| "mapM f (x # xs) = rbind (f x) (\<lambda>y. rbind (mapM f xs) (\<lambda>ys. Inr (y # ys)))"

subsection \<open>Log-likelihood values\<close>

datatype fval = Finite real | PosInf | NegInf | NaN

fun fadd :: "fval \<Rightarrow> fval \<Rightarrow> fval" where
  "fadd NaN y = NaN"
| "fadd x NaN = NaN"
| "fadd PosInf NegInf = NaN"
| "fadd NegInf PosInf = NaN"
| "fadd PosInf y = PosInf"
| "fadd x PosInf = PosInf"
| "fadd NegInf y = NegInf"
| "fadd x NegInf = NegInf"
| "fadd (Finite a) (Finite b) = Finite (a + b)"

fun fneg :: "fval \<Rightarrow> fval" where
  "fneg NaN = NaN"
| "fneg PosInf = NegInf"
| "fneg NegInf = PosInf"
| "fneg (Finite a) = Finite (- a)"

definition fsub :: "fval \<Rightarrow> fval \<Rightarrow> fval" where
  "fsub x y = fadd x (fneg y)"

fun fexp :: "fval \<Rightarrow> fval" where
  "fexp NaN = NaN"
| "fexp PosInf = PosInf"
| "fexp NegInf = Finite 0"
| "fexp (Finite a) = Finite (exp a)"

text \<open>\<open>fgt x y\<close> is \<^verbatim>\<open>x > y\<close>: false as soon as one side is NaN.\<close>

fun fgt :: "fval \<Rightarrow> fval \<Rightarrow> bool" where
  "fgt NaN y = False"
| "fgt x NaN = False"
| "fgt PosInf PosInf = False"
| "fgt PosInf y = True"
| "fgt x PosInf = False"
| "fgt NegInf y = False"
| "fgt x NegInf = True"
| "fgt (Finite a) (Finite b) = (b < a)"

text \<open>\<^verbatim>\<open>a.sum(-1)\<close> on one row.\<close>

definition fsum :: "fval list \<Rightarrow> fval" where
  "fsum xs = foldr fadd xs (Finite 0)"

subsection \<open>numpy operations\<close>

text \<open>\<^verbatim>\<open>xs[idx]\<close> with an integer array \<open>idx\<close>; IndexError when an index is out of range.\<close>

definition getitems :: "'a list \<Rightarrow> nat list \<Rightarrow> 'a list result" where
  "getitems xs idx =
     (if list_all (\<lambda>i. i < length xs) idx then Inr (map (\<lambda>i. xs ! i) idx)
      else Inl IndexError)"

text \<open>The same with a matrix of indices.\<close>

definition getitems2 :: "'a list \<Rightarrow> nat list list \<Rightarrow> 'a list list result" where
  "getitems2 xs idxs = mapM (getitems xs) idxs"

text \<open>
  \<^verbatim>\<open>xs[mask] = ys[mask]\<close> with a boolean array \<open>msk\<close>: numpy raises IndexError when
  the mask does not have the length of the array it indexes.
\<close>

definition mask_assign :: "'a list \<Rightarrow> bool list \<Rightarrow> 'a list \<Rightarrow> 'a list result" where
  "mask_assign xs msk ys =
     (if length msk = length ys \<and> length msk = length xs
      then Inr (map (\<lambda>(x, b, y). if b then y else x) (zip xs (zip msk ys)))
      else Inl IndexError)"

text \<open>
  \<^verbatim>\<open>np.bincount(xs, minlength=n)\<close>: entry \<open>k\<close> counts the occurrences of \<open>k\<close>; the
  result has \<open>n\<close> entries, or more when \<open>xs\<close> holds a value from \<open>n\<close> on.
\<close>

definition bincount_len :: "nat list \<Rightarrow> nat \<Rightarrow> nat" where
  "bincount_len xs n = max n (if xs = [] then 0 else Suc (foldr max xs 0))"

definition bincount :: "nat list \<Rightarrow> nat \<Rightarrow> nat list" where
  "bincount xs n = map (\<lambda>k. length (filter (\<lambda>x. x = k) xs)) [0..<bincount_len xs n]"

text \<open>
  \<^verbatim>\<open>np.bincount(xs, ws, minlength=n)\<close>: entry \<open>k\<close> sums the weights at the occurrences
  of \<open>k\<close>; ValueError when \<open>xs\<close> and \<open>ws\<close> differ in length.
\<close>

definition bincount_w :: "nat list \<Rightarrow> fval list \<Rightarrow> nat \<Rightarrow> fval list result" where
  "bincount_w xs ws n =
     (if length xs = length ws
      then Inr (map (\<lambda>k. fsum (map snd (filter (\<lambda>(x, w). x = k) (zip xs ws))))
                  [0..<bincount_len xs n])
      else Inl ValueError)"

text \<open>
  \<^verbatim>\<open>np.repeat(row, nreplicas)\<close> along the columns of one row. \<open>nreplicas\<close> is the
  scalar 1 in the group-level update and the array of replicate counts otherwise; an
  array of one count is broadcast like a scalar, any other array must have one count
  per column.
\<close>

datatype reps = Scalar nat | PerGroup "nat list"

fun np_repeat :: "reps \<Rightarrow> 'a list \<Rightarrow> 'a list result" where
  "np_repeat (Scalar n) row = Inr (concat (map (replicate n) row))"
| "np_repeat (PerGroup [n]) row = Inr (concat (map (replicate n) row))"
| "np_repeat (PerGroup ns) row =
     (if length ns = length row
      then Inr (concat (map (\<lambda>(x, n). replicate n x) (zip row ns)))
      else Inl ValueError)"

text \<open>
  \<^verbatim>\<open>np.hsplit(a, np.cumsum(nreplicas)[:-1])\<close>: the columns cut into one section per
  group, the last section taking what is left.
\<close>

fun split_at :: "nat list \<Rightarrow> 'a list \<Rightarrow> 'a list list" where
  "split_at [] xs = [xs]"
| "split_at (n # ns) xs = take n xs # split_at ns (drop n xs)"

fun reps_list :: "reps \<Rightarrow> nat list" where
  "reps_list (Scalar n) = [n]"
| "reps_list (PerGroup ns) = ns"

definition hsplit1 :: "reps \<Rightarrow> 'a list \<Rightarrow> 'a list list" where
  "hsplit1 nreplicas xs = split_at (butlast (reps_list nreplicas)) xs"

definition hsplit2 :: "reps \<Rightarrow> 'a list list \<Rightarrow> 'a list list list" where
  "hsplit2 nreplicas rows =
     map (\<lambda>g. map (\<lambda>row. hsplit1 nreplicas row ! g) rows)
       [0..<Suc (length (butlast (reps_list nreplicas)))]"

text \<open>
  \<^verbatim>\<open>a[1:] = rows\<close> for a matrix \<open>a\<close>: the rows from 1 on are overwritten; ValueError
  when the shapes differ. (numpy also accepts a single row, or rows of a single entry,
  and repeats them to the shape of the slice; that broadcast is not modelled, such an
  assignment is an error here.)
\<close>

definition assign_tail :: "'a list list \<Rightarrow> 'a list list \<Rightarrow> 'a list list result" where
  "assign_tail a rows =
     (if a \<noteq> [] \<and> map length rows = map length (tl a) then Inr (hd a # rows)
      else Inl ValueError)"

definition assign_tail1 :: "'a list \<Rightarrow> 'a list \<Rightarrow> 'a list result" where
  "assign_tail1 a xs =
     (if a \<noteq> [] \<and> length xs = length (tl a) then Inr (hd a # xs) else Inl ValueError)"

subsection \<open>The likelihood kernel\<close>

text \<open>
  \<open>data\<close> is the triple \<^verbatim>\<open>(counts, lib_sizes, nreplicas)\<close>. \<^verbatim>\<open>st.nbinomln\<close> is a
  parameter (\<open>nbinomln\<close>), applied to each count with \<open>alpha\<close> and \<open>p\<close> of its
  feature and sample. The arrays must fit: one row of counts, one \<open>log_phi\<close>, one
  \<open>log_mu\<close> and one row of \<open>beta\<close> per feature, one library size per sample, and a
  row of \<open>beta\<close> (after the repeat) with one entry per sample or a single entry, which
  is then broadcast; numpy raises ValueError otherwise. (The other broadcasts of numpy,
  of a single feature or a single sample against longer arrays, are not modelled:
  they are errors here.)
\<close>

type_synonym data = "nat list list \<times> real list \<times> reps"

type_synonym kernel = "nat \<Rightarrow> real \<Rightarrow> real \<Rightarrow> fval"

definition bcast :: "nat \<Rightarrow> 'a list \<Rightarrow> 'a list" where
  "bcast n row = (if length row = 1 then replicate n (hd row) else row)"

definition compute_loglik ::
  "kernel \<Rightarrow> data \<Rightarrow> real list \<Rightarrow> real list \<Rightarrow> real list list \<Rightarrow> fval list list result" where
  "compute_loglik nbinomln dat lphi lmu bet =
     (case dat of (counts, lib_sizes, nreplicas) \<Rightarrow>
        rbind (mapM (np_repeat nreplicas) bet) (\<lambda>bet_rep.
          if length lphi = length counts \<and> length lmu = length counts
             \<and> length bet_rep = length counts
             \<and> list_all (\<lambda>r. length r = length lib_sizes) counts
             \<and> list_all (\<lambda>r. length r = length lib_sizes \<or> length r = 1) bet_rep
          then Inr (map (\<lambda>(cnts, lp, lm, brow).
                      let alpha = 1 / exp lp in
                      map (\<lambda>(cnt, lib, b).
                             nbinomln cnt alpha (alpha / (alpha + lib * exp (lm + b))))
                        (zip cnts (zip lib_sizes (bcast (length lib_sizes) brow))))
                   (zip counts (zip lphi (zip lmu bet_rep))))
          else Inl ValueError))"

subsection \<open>Metropolis acceptance\<close>

text \<open>
  One entry of
  \<^verbatim>\<open>np.logical_or(loglik_ > loglik, rn.rand(...) < np.exp(loglik_ - loglik))\<close>,
  with \<open>u\<close> the uniform draw.
\<close>

definition accept :: "real \<Rightarrow> fval \<Rightarrow> fval \<Rightarrow> bool" where
  "accept u l' l = (fgt l' l \<or> fgt (fexp (fsub l' l)) (Finite u))"

definition accepts :: "real list \<Rightarrow> fval list \<Rightarrow> fval list \<Rightarrow> bool list" where
  "accepts us ls' ls = map (\<lambda>(u, l', l). accept u l' l) (zip us (zip ls' ls))"

subsection \<open>The model state\<close>

record model =
  ngroups :: nat
  nfeatures :: nat
  nsamples :: nat
  thr :: real
  iter :: nat
  mu1 :: real
  tau1 :: real
  mu2 :: real
  tau2 :: real
  m0 :: real
  t0 :: real
  log_phi :: "real list"
  log_mu :: "real list"
  eta :: real
  zeta :: "real list"
  lw :: "real list"
  lu :: "real list list"
  beta :: "real list"
  c :: "nat list list"
  d :: "nat list list"
  z :: "nat list list"
  occ :: "nat list"
  iact :: "bool list"
  nact :: nat

text \<open>
  \<^verbatim>\<open>z[np.abs(beta[z]) < thr] = 0\<close>: the threshold snap.
\<close>

definition snap :: "real list \<Rightarrow> real \<Rightarrow> nat list list \<Rightarrow> nat list list result" where
  "snap bet th zs =
     rbind (getitems2 bet zs) (\<lambda>bz.
       Inr (map (\<lambda>(zrow, brow). map (\<lambda>(k, b). if \<bar>b\<bar> < th then 0 else k) (zip zrow brow))
              (zip zs bz)))"

text \<open>\<^verbatim>\<open>np.sum(iact)\<close>: the number of true entries.\<close>

definition count_true :: "bool list \<Rightarrow> nat" where
  "count_true bs = length (filter (\<lambda>b. b) bs)"

subsection \<open>Random draws and the samplers of dgeclust.stats\<close>

text \<open>
  One record per call of \<^verbatim>\<open>_update_group_vars\<close>: \<open>d_prop\<close> and \<open>c_prop\<close> are the
  arrays \<^verbatim>\<open>d_\<close> and \<^verbatim>\<open>c_\<close> returned by \<^verbatim>\<open>rn.choice\<close>, \<open>u_d\<close> and \<open>u_c\<close> the
  arrays returned by \<^verbatim>\<open>rn.rand\<close>; \<open>g_sample_eta_west\<close> and \<open>g_sample_stick\<close> stand
  for \<^verbatim>\<open>st.sample_eta_west\<close> and the first component of \<^verbatim>\<open>st.sample_stick\<close>.
\<close>

record group_draws =
  d_prop :: "nat list"
  u_d :: "real list"
  c_prop :: "nat list"
  u_c :: "real list"
  g_sample_eta_west :: "real \<Rightarrow> nat \<Rightarrow> nat \<Rightarrow> real"
  g_sample_stick :: "nat list \<Rightarrow> real \<Rightarrow> real list"

text \<open>
  One record per sweep: \<^verbatim>\<open>rn.normal\<close> at its three call sites (\<open>rn_normal_phi\<close>,
  \<open>rn_normal_mu\<close> and \<open>rn_normal_beta\<close>, each a function of the location, the scale
  and the size to the array returned), the uniform draws of the three Metropolis
  tests, the draws of every group, and the samplers of \<^verbatim>\<open>dgeclust.stats\<close> at their
  call sites;
  \<open>jeffreys_phi\<close>, \<open>jeffreys_mu\<close> and \<open>jeffreys_beta\<close> are the three calls of
  \<^verbatim>\<open>st.sample_normal_mean_prec_jeffreys\<close>.
\<close>

record sweep_draws =
  rn_normal_phi :: "real \<Rightarrow> real \<Rightarrow> nat \<Rightarrow> real list"
  u_phi :: "real list"
  rn_normal_mu :: "real \<Rightarrow> real \<Rightarrow> nat \<Rightarrow> real list"
  u_mu :: "real list"
  rn_normal_beta :: "real \<Rightarrow> real \<Rightarrow> nat \<Rightarrow> real list"
  u_beta :: "real list"
  group_dr :: "nat \<Rightarrow> group_draws"
  sample_eta_west :: "real \<Rightarrow> nat \<Rightarrow> nat \<Rightarrow> real"
  sample_stick :: "nat list \<Rightarrow> real \<Rightarrow> real list"
  jeffreys_phi :: "real \<Rightarrow> real \<Rightarrow> nat \<Rightarrow> real \<times> real"
  jeffreys_mu :: "real \<Rightarrow> real \<Rightarrow> nat \<Rightarrow> real \<times> real"
  jeffreys_beta :: "real \<Rightarrow> real \<Rightarrow> nat \<Rightarrow> real \<times> real"

text \<open>The draws of the constructor.\<close>

record init_draws =
  log_phi0 :: "real list"
  log_mu0 :: "real list"
  beta0 :: "real list"
  c0 :: "nat list list"
  d0 :: "nat list list"

text \<open>
  The proposals of a sweep, drawn from the hyperpriors: line 185,
  \<^verbatim>\<open>log_phi_ = rn.normal(self.mu1, 1/np.sqrt(self.tau1), self.nfeatures)\<close>, line 197,
  \<^verbatim>\<open>log_mu_ = rn.normal(self.mu2, 1/np.sqrt(self.tau2), self.nfeatures)\<close>, and the
  normal draws of line 224,
  \<^verbatim>\<open>rn.normal(self.m0, 1/np.sqrt(self.t0), self.lw.size-1)\<close>, each the array the
  generator returns for the location, the scale and the size of the call, read from
  the state at the time of the call.
\<close>

definition propose_log_phi :: "sweep_draws \<Rightarrow> model \<Rightarrow> real list" where
  "propose_log_phi dr m = rn_normal_phi dr (mu1 m) (1 / sqrt (tau1 m)) (nfeatures m)"

definition propose_log_mu :: "sweep_draws \<Rightarrow> model \<Rightarrow> real list" where
  "propose_log_mu dr m = rn_normal_mu dr (mu2 m) (1 / sqrt (tau2 m)) (nfeatures m)"

definition propose_beta :: "sweep_draws \<Rightarrow> model \<Rightarrow> real list" where
  "propose_beta dr m = rn_normal_beta dr (m0 m) (1 / sqrt (t0 m)) (length (lw m) - 1)"

subsection \<open>The Metropolis updates of log_phi, log_mu and beta\<close>

text \<open>
  \<^verbatim>\<open>_update_phi\<close> and \<^verbatim>\<open>_update_mu\<close>, with the proposal (\<^verbatim>\<open>log_phi_\<close>, \<^verbatim>\<open>log_mu_\<close>) and the
  array of uniform draws as arguments; \<open>update\<close> passes \<open>propose_log_phi\<close> and
  \<open>propose_log_mu\<close> of the state.
\<close>

definition update_phi :: "kernel \<Rightarrow> data \<Rightarrow> real list \<Rightarrow> real list \<Rightarrow> model \<Rightarrow> model result" where
  "update_phi nbinomln dat lphi_p us m =
     rbind (getitems2 (beta m) (transpose (z m))) (\<lambda>bz.
     rbind (compute_loglik nbinomln dat (log_phi m) (log_mu m) bz) (\<lambda>ll.
     rbind (compute_loglik nbinomln dat lphi_p (log_mu m) bz) (\<lambda>ll_p.
     rbind (mask_assign (log_phi m) (accepts us (map fsum ll_p) (map fsum ll)) lphi_p) (\<lambda>lp.
     Inr (m\<lparr>log_phi := lp\<rparr>)))))"

definition update_mu :: "kernel \<Rightarrow> data \<Rightarrow> real list \<Rightarrow> real list \<Rightarrow> model \<Rightarrow> model result" where
  "update_mu nbinomln dat lmu_p us m =
     rbind (getitems2 (beta m) (transpose (z m))) (\<lambda>bz.
     rbind (compute_loglik nbinomln dat (log_phi m) (log_mu m) bz) (\<lambda>ll.
     rbind (compute_loglik nbinomln dat (log_phi m) lmu_p bz) (\<lambda>ll_p.
     rbind (mask_assign (log_mu m) (accepts us (map fsum ll_p) (map fsum ll)) lmu_p) (\<lambda>lm.
     Inr (m\<lparr>log_mu := lm\<rparr>)))))"

text \<open>
  \<^verbatim>\<open>_update_beta\<close>. \<^verbatim>\<open>rn.normal(..., self.lw.size-1)\<close> raises ValueError on the
  size -1, that is when \<open>lw\<close> is empty; \<open>bnorm\<close> is the array it returns otherwise.
\<close>

definition update_beta :: "kernel \<Rightarrow> data \<Rightarrow> real list \<Rightarrow> real list \<Rightarrow> model \<Rightarrow> model result" where
  "update_beta nbinomln dat bnorm us m =
     (case dat of (counts, lib_sizes, nreplicas) \<Rightarrow>
        if lw m = [] then Inl ValueError
        else
          let beta_p = 0 # bnorm in
          rbind (getitems2 (beta m) (transpose (z m))) (\<lambda>bz.
          rbind (compute_loglik nbinomln dat (log_phi m) (log_mu m) bz) (\<lambda>ll.
          rbind (getitems2 beta_p (transpose (z m))) (\<lambda>bz_p.
          rbind (compute_loglik nbinomln dat (log_phi m) (log_mu m) bz_p) (\<lambda>ll_p.
          rbind (mapM (np_repeat nreplicas) (transpose (z m))) (\<lambda>zrep.
          rbind (bincount_w (concat zrep) (concat ll) (length (lw m))) (\<lambda>loglik.
          rbind (bincount_w (concat zrep) (concat ll_p) (length (lw m))) (\<lambda>loglik_p.
          rbind (mask_assign (beta m) (accepts us loglik_p loglik) beta_p) (\<lambda>b1.
          rbind (mask_assign b1 (map Not (iact m)) beta_p) (\<lambda>b2.
          Inr (m\<lparr>beta := b2\<rparr>)))))))))))"

subsection \<open>The hyper-parameters\<close>

text \<open>
  \<^verbatim>\<open>self.beta[self.z][self.z > 0]\<close>: the effect of every (group, feature) pair whose
  cluster is not the null cluster, as a flat array.
\<close>

definition active_effects :: "nat list list \<Rightarrow> real list list \<Rightarrow> real list" where
  "active_effects zs bz = map snd (filter (\<lambda>(k, b). 0 < k) (zip (concat zs) (concat bz)))"

definition update_hpars :: "sweep_draws \<Rightarrow> model \<Rightarrow> model result" where
  "update_hpars dr m =
     (let h1 = jeffreys_phi dr (sum_list (log_phi m)) (sum_list (map (\<lambda>x. x ^ 2) (log_phi m)))
                 (length (log_phi m));
          h2 = jeffreys_mu dr (sum_list (log_mu m)) (sum_list (map (\<lambda>x. x ^ 2) (log_mu m)))
                 (length (log_mu m))
      in rbind (getitems2 (beta m) (z m)) (\<lambda>bz.
           let bs = active_effects (z m) bz;
               s1 = sum_list bs;
               s2 = sum_list (map (\<lambda>x. x ^ 2) bs);
               n = length bs;
               h0 = (if 2 < n then jeffreys_beta dr s1 s2 n else (m0 m, t0 m))
           in Inr (m\<lparr>mu1 := fst h1, tau1 := snd h1, mu2 := fst h2, tau2 := snd h2,
                      m0 := fst h0, t0 := snd h0\<rparr>)))"

subsection \<open>The group-level update\<close>

text \<open>
  \<^verbatim>\<open>_update_group_vars\<close> as a function of its argument tuple to the tuple it
  returns; \<open>d_p\<close>, \<open>c_p\<close> and \<open>loglik_p\<close> are the source's \<^verbatim>\<open>d_\<close>, \<^verbatim>\<open>c_\<close> and
  \<^verbatim>\<open>loglik_\<close>. \<^verbatim>\<open>c_[0] = 0\<close> raises IndexError when \<^verbatim>\<open>c_\<close> is empty.
\<close>

type_synonym group_args =
  "nat list \<times> nat list \<times> real list \<times> real \<times> nat list list \<times> real list
   \<times> (real list \<times> real list \<times> real list \<times> real list)"

type_synonym group_result = "nat list \<times> nat list \<times> nat list \<times> real list \<times> real"

definition group_loglik ::
  "kernel \<Rightarrow> nat list list \<Rightarrow> real list \<Rightarrow> real list \<Rightarrow> real list \<Rightarrow> real list
   \<Rightarrow> nat list \<Rightarrow> nat list \<Rightarrow> fval list result" where
  "group_loglik nbinomln counts lib_sizes lphi lmu bet cs ds =
     rbind (getitems cs ds) (\<lambda>cd.
     rbind (getitems bet cd) (\<lambda>bcd.
     rbind (compute_loglik nbinomln (counts, lib_sizes, Scalar 1) lphi lmu (map (\<lambda>b. [b]) bcd))
       (\<lambda>ll. Inr (map fsum ll))))"

definition update_group_vars :: "kernel \<Rightarrow> group_draws \<Rightarrow> group_args \<Rightarrow> group_result result" where
  "update_group_vars nbinomln gd args =
     (case args of (cs, ds, lus, zet, counts, lib_sizes, (lphi, lmu, bet, lws)) \<Rightarrow>
        let d_p = d_prop gd in
        rbind (group_loglik nbinomln counts lib_sizes lphi lmu bet cs ds) (\<lambda>loglik.
        rbind (group_loglik nbinomln counts lib_sizes lphi lmu bet cs d_p) (\<lambda>loglik_p.
        rbind (mask_assign ds (accepts (u_d gd) loglik_p loglik) d_p) (\<lambda>ds'.
        let oc = bincount ds' (length lus);
            ia = map (\<lambda>n. 0 < n) oc;
            kact = count_true ia
        in
        if c_prop gd = [] then Inl IndexError
        else
          let c_p = (c_prop gd)[0 := 0] in
          rbind (group_loglik nbinomln counts lib_sizes lphi lmu bet cs ds') (\<lambda>loglik.
          rbind (group_loglik nbinomln counts lib_sizes lphi lmu bet c_p ds') (\<lambda>loglik_p.
          rbind (bincount_w ds' loglik (length lus)) (\<lambda>loglik.
          rbind (bincount_w ds' loglik_p (length lus)) (\<lambda>loglik_p.
          rbind (mask_assign cs (accepts (u_c gd) loglik_p loglik) c_p) (\<lambda>cs'.
          rbind (mask_assign cs' (map Not ia) c_p) (\<lambda>cs''.
          let zet' = g_sample_eta_west gd zet kact (sum_list oc);
              lus' = g_sample_stick gd oc zet'
          in rbind (getitems cs'' ds') (\<lambda>zs.
             Inr (cs'', ds', zs, lus', zet'))))))))))))"

subsection \<open>The constructor\<close>

text \<open>
  \<open>count_data\<close> is what \<^verbatim>\<open>__init__\<close> reads of its argument \<^verbatim>\<open>data\<close>: the number of
  groups \<^verbatim>\<open>len(data.groups)\<close>, the shape of \<^verbatim>\<open>data.counts\<close> and its values.
\<close>

record count_data =
  groups :: nat
  counts_shape :: "nat \<times> nat"
  counts_values :: "nat list list"

definition np_mean :: "real list \<Rightarrow> real" where
  "np_mean xs = sum_list xs / real (length xs)"

definition np_var :: "real list \<Rightarrow> real" where
  "np_var xs = np_mean (map (\<lambda>x. (x - np_mean xs) ^ 2) xs)"

text \<open>
  \<^verbatim>\<open>__init__\<close>, with \<open>ntrunc = (K, L)\<close>. The draws \<open>c0\<close> and \<open>d0\<close> are the arrays
  returned by \<^verbatim>\<open>rn.choice\<close> in lines 57 and 58; \<open>beta0\<close> is the array returned by
  \<^verbatim>\<open>rn.normal\<close> in line 54, which raises ValueError on the size -1 when \<open>K = 0\<close>.
  \<^verbatim>\<open>c[0, :] = 0\<close> raises IndexError on an array with no row, \<^verbatim>\<open>c[:, 0] = 0\<close> on an
  array with no column.
\<close>

definition init ::
  "count_data \<Rightarrow> nat \<times> nat \<Rightarrow> real \<times> real \<Rightarrow> real option \<Rightarrow> real option \<Rightarrow> real
   \<Rightarrow> init_draws \<Rightarrow> model result" where
  "init dat ntrunc init_hpars eta_arg zeta_arg th dr =
     (let logs = map (\<lambda>x. ln (real x + 1)) (concat (counts_values dat));
          dmean = np_mean logs;
          dvar = np_var logs;
          lws = replicate (fst ntrunc) (- ln (real (fst ntrunc)));
          lus = replicate (groups dat) (replicate (snd ntrunc) (- ln (real (snd ntrunc))))
      in
      if lws = [] then Inl ValueError
      else
        let bet = 0 # beta0 dr in
        if c0 dr = [] then Inl IndexError
        else
          let cs1 = map (\<lambda>x. 0) (hd (c0 dr)) # tl (c0 dr) in
          if d0 dr = [] then Inl IndexError
          else
            let ds = map (\<lambda>x. 0) (hd (d0 dr)) # tl (d0 dr) in
            if \<not> list_all (\<lambda>r. r \<noteq> []) cs1 then Inl IndexError
            else
              let cs = map (\<lambda>r. r[0 := 0]) cs1 in
              rbind (mapM (\<lambda>(crow, drow). getitems crow drow) (zip cs ds)) (\<lambda>zs0.
              rbind (snap bet th zs0) (\<lambda>zs.
              let oc = bincount (concat (tl zs)) (length lws);
                  ia = map (\<lambda>n. 0 < n) oc
              in Inr \<lparr>ngroups = groups dat,
                      nfeatures = fst (counts_shape dat),
                      nsamples = snd (counts_shape dat),
                      thr = th,
                      iter = 0,
                      mu1 = ln (\<bar>dvar - dmean\<bar> / dmean ^ 2),
                      tau1 = 1,
                      mu2 = dmean,
                      tau2 = 1 / dvar,
                      m0 = fst init_hpars,
                      t0 = snd init_hpars,
                      log_phi = log_phi0 dr,
                      log_mu = log_mu0 dr,
                      eta = (case eta_arg of None \<Rightarrow> ln (real (fst ntrunc)) | Some e \<Rightarrow> e),
                      zeta = replicate (groups dat)
                               (case zeta_arg of None \<Rightarrow> ln (real (snd ntrunc)) | Some e \<Rightarrow> e),
                      lw = lws,
                      lu = lus,
                      beta = bet,
                      c = cs,
                      d = ds,
                      z = zs,
                      occ = oc,
                      iact = ia,
                      nact = count_true ia\<rparr>)))"

subsection \<open>One sweep\<close>

text \<open>
  The argument tuples of line 158: \<^verbatim>\<open>zip\<close> stops at the shortest of its arguments.
\<close>

definition group_args_list :: "data \<Rightarrow> model \<Rightarrow> group_args list" where
  "group_args_list dat m =
     (case dat of (counts, lib_sizes, nreplicas) \<Rightarrow>
        map (\<lambda>(cs, ds, lus, zet, cnt, lib).
               (cs, ds, lus, zet, cnt, lib, (log_phi m, log_mu m, beta m, lw m)))
          (zip (tl (c m)) (zip (tl (d m)) (zip (tl (lu m)) (zip (tl (zeta m))
             (zip (tl (hsplit2 nreplicas counts)) (tl (hsplit1 nreplicas lib_sizes))))))))"

text \<open>
  \<^verbatim>\<open>map(_update_group_vars, args)\<close>; the call for the group at position \<open>g\<close> uses the
  draws \<open>group_dr dr g\<close>.
\<close>

definition group_results :: "kernel \<Rightarrow> sweep_draws \<Rightarrow> group_args list \<Rightarrow> group_result list result" where
  "group_results nbinomln dr args =
     mapM (\<lambda>(g, a). update_group_vars nbinomln (group_dr dr g) a)
       (zip [1..<Suc (length args)] args)"

text \<open>
  Lines 165 to 179, from the results of the groups on. Unpacking \<^verbatim>\<open>zip(*results)\<close>
  into five targets raises ValueError when there is no result. The three assignments
  \<^verbatim>\<open>self.occ[:] = ...\<close>, \<^verbatim>\<open>self.iact[:] = ...\<close> and \<^verbatim>\<open>self.lw[:], _ = ...\<close> write into
  the existing arrays and raise ValueError when the lengths differ.
\<close>

definition finish_sweep :: "sweep_draws \<Rightarrow> group_result list \<Rightarrow> model \<Rightarrow> model result" where
  "finish_sweep dr rs m =
     (if rs = [] then Inl ValueError
      else
        rbind (assign_tail (c m) (map (\<lambda>(cs, ds, zs, lus, zet). cs) rs)) (\<lambda>c'.
        rbind (assign_tail (d m) (map (\<lambda>(cs, ds, zs, lus, zet). ds) rs)) (\<lambda>d'.
        rbind (assign_tail (z m) (map (\<lambda>(cs, ds, zs, lus, zet). zs) rs)) (\<lambda>z1.
        rbind (assign_tail (lu m) (map (\<lambda>(cs, ds, zs, lus, zet). lus) rs)) (\<lambda>lu'.
        rbind (assign_tail1 (zeta m) (map (\<lambda>(cs, ds, zs, lus, zet). zet) rs)) (\<lambda>zeta'.
        rbind (snap (beta m) (thr m) z1) (\<lambda>z'.
        let oc = bincount (concat (tl z')) (length (lw m)) in
        if length oc \<noteq> length (occ m) then Inl ValueError
        else
          let ia = map (\<lambda>n. 0 < n) oc in
          if length ia \<noteq> length (iact m) then Inl ValueError
          else
            let na = count_true ia;
                eta' = sample_eta_west dr (eta m) na (sum_list oc);
                lw' = sample_stick dr oc eta'
            in
            if length lw' \<noteq> length (lw m) then Inl ValueError
            else
              update_hpars dr
                (m\<lparr>c := c', d := d', z := z', lu := lu', zeta := zeta', occ := oc,
                   iact := ia, nact := na, eta := eta', lw := lw'\<rparr>))))))))"

text \<open>\<^verbatim>\<open>update\<close>, with \<open>pool\<close> either \<^verbatim>\<open>None\<close> or a pool whose \<^verbatim>\<open>map\<close> is \<^verbatim>\<open>map\<close>.\<close>

definition update :: "kernel \<Rightarrow> data \<Rightarrow> sweep_draws \<Rightarrow> model \<Rightarrow> model result" where
  "update nbinomln dat dr m =
     rbind (update_phi nbinomln dat (propose_log_phi dr (m\<lparr>iter := iter m + 1\<rparr>)) (u_phi dr)
              (m\<lparr>iter := iter m + 1\<rparr>)) (\<lambda>m2.
     rbind (update_mu nbinomln dat (propose_log_mu dr m2) (u_mu dr) m2) (\<lambda>m3.
     rbind (update_beta nbinomln dat (propose_beta dr m3) (u_beta dr) m3) (\<lambda>m4.
     rbind (group_results nbinomln dr (group_args_list dat m4)) (\<lambda>rs.
     finish_sweep dr rs m4))))"

text \<open>
  What \<^verbatim>\<open>rn.normal\<close> and \<^verbatim>\<open>rn.choice\<close> guarantee of the arrays they return to the
  constructor: their shapes, and the range of the indices drawn.
\<close>

definition valid_init_draws :: "count_data \<Rightarrow> nat \<times> nat \<Rightarrow> init_draws \<Rightarrow> bool" where
  "valid_init_draws dat ntrunc dr \<longleftrightarrow>
     length (log_phi0 dr) = fst (counts_shape dat) \<and>
     length (log_mu0 dr) = fst (counts_shape dat) \<and>
     Suc (length (beta0 dr)) = fst ntrunc \<and>
     length (c0 dr) = groups dat \<and>
     list_all (\<lambda>row. length row = snd ntrunc \<and> list_all (\<lambda>k. k < fst ntrunc) row) (c0 dr) \<and>
     length (d0 dr) = groups dat \<and>
     list_all (\<lambda>row. length row = fst (counts_shape dat) \<and> list_all (\<lambda>k. k < snd ntrunc) row)
       (d0 dr)"

text \<open>
  The states a run goes through: the state the constructor returns, and the state
  every completed sweep returns, whatever the data, the draws and the kernel.
\<close>

inductive reachable :: "model \<Rightarrow> bool" where
  reach_init: "valid_init_draws dat ntrunc dr \<Longrightarrow>
     init dat ntrunc init_hpars eta_arg zeta_arg th dr = Inr m \<Longrightarrow> reachable m"
| reach_update: "reachable m \<Longrightarrow> update nbinomln dat dr m = Inr m' \<Longrightarrow> reachable m'"

text \<open>
  The invariant of the indicator arrays: their shapes, the indices in range, \<open>z\<close> as
  the snapped composition of \<open>c\<close> and \<open>d\<close>, the null reference group, the null effect
  of cluster 0, and the occupancy statistics.
\<close>

definition wf :: "model \<Rightarrow> bool" where
  "wf m \<longleftrightarrow>
     ngroups m \<noteq> 0 \<and> length (c m) = ngroups m \<and> length (d m) = ngroups m \<and>
     length (z m) = ngroups m \<and> beta m \<noteq> [] \<and> beta m ! 0 = 0 \<and>
     (\<forall>g<ngroups m. length (d m ! g) = nfeatures m \<and> length (z m ! g) = nfeatures m \<and>
        (\<forall>f<nfeatures m.
           d m ! g ! f < length (c m ! g) \<and>
           c m ! g ! (d m ! g ! f) < length (beta m) \<and>
           z m ! g ! f = (if \<bar>beta m ! (c m ! g ! (d m ! g ! f))\<bar> < thr m then 0
                          else c m ! g ! (d m ! g ! f)))) \<and>
     (\<forall>x\<in>set (c m ! 0). x = 0) \<and> (\<forall>x\<in>set (d m ! 0). x = 0) \<and>
     (\<forall>x\<in>set (z m ! 0). x = 0) \<and>
     iact m = map (\<lambda>n. 0 < n) (occ m) \<and>
     occ m = bincount (concat (tl (z m))) (length (lw m))"

subsection \<open>A run on a small data set\<close>

text \<open>
  Two features, two groups of one sample each, \<open>ntrunc = (3, 2)\<close>, the default
  \<open>init_hpars = (0, 1)\<close> and \<open>thr = 0.3\<close>; \<open>ex_idr\<close> and \<open>ex_dr\<close> are the draws of
  the constructor and of the first sweep, \<open>ex_m0\<close> the state after the constructor,
  \<open>ex_m2\<close>, \<open>ex_m3\<close> and \<open>ex_m4\<close> the states after \<^verbatim>\<open>_update_phi\<close>, \<^verbatim>\<open>_update_mu\<close>
  and \<^verbatim>\<open>_update_beta\<close>, \<open>ex_m1\<close> the state after the sweep. The kernel \<open>ex_nb\<close>
  gives likelihood 1 to a count of 1 and NaN to any other count.
\<close>

definition ex_dat :: count_data where
  "ex_dat = \<lparr>groups = 2, counts_shape = (2, 2), counts_values = [[1, 1], [2, 2]]\<rparr>"

definition ex_idr :: init_draws where
  "ex_idr = \<lparr>log_phi0 = [0, 0], log_mu0 = [0, 0], beta0 = [1, 2],
              c0 = [[1, 2], [2, 1]], d0 = [[1, 0], [1, 1]]\<rparr>"

definition ex_logs :: "real list" where
  "ex_logs = map (\<lambda>x. ln (real x + 1)) (concat (counts_values ex_dat))"

definition ex_m0 :: model where
  "ex_m0 = \<lparr>ngroups = 2, nfeatures = 2, nsamples = 2, thr = 3 / 10, iter = 0,
     mu1 = ln (\<bar>np_var ex_logs - np_mean ex_logs\<bar> / np_mean ex_logs ^ 2), tau1 = 1,
     mu2 = np_mean ex_logs, tau2 = 1 / np_var ex_logs, m0 = 0, t0 = 1,
     log_phi = [0, 0], log_mu = [0, 0], eta = ln 3, zeta = [ln 2, ln 2],
     lw = [- ln 3, - ln 3, - ln 3], lu = [[- ln 2, - ln 2], [- ln 2, - ln 2]],
     beta = [0, 1, 2], c = [[0, 0], [0, 1]], d = [[0, 0], [1, 1]], z = [[0, 0], [1, 1]],
     occ = [0, 2, 0], iact = [False, True, False], nact = 1\<rparr>"

definition ex_nb :: kernel where
  "ex_nb = (\<lambda>cnt a p. if cnt = 1 then Finite 0 else NaN)"

definition ex_data :: data where
  "ex_data = ([[1, 1], [2, 2]], [1, 1], PerGroup [1, 1])"

definition ex_gd :: group_draws where
  "ex_gd = \<lparr>d_prop = [0, 1], u_d = [1 / 2, 1 / 2], c_prop = [2, 2], u_c = [1 / 2, 1 / 2],
            g_sample_eta_west = (\<lambda>e k n. e),
            g_sample_stick = (\<lambda>oc e. replicate (length oc) (- 1))\<rparr>"

definition ex_dr :: sweep_draws where
  "ex_dr = \<lparr>rn_normal_phi = (\<lambda>loc scale n. [1, 1]), u_phi = [1 / 2, 1 / 2],
            rn_normal_mu = (\<lambda>loc scale n. [1, 1]), u_mu = [1 / 2, 1 / 2],
            rn_normal_beta = (\<lambda>loc scale n. [1 / 2, 3]), u_beta = [1 / 2, 1 / 2, 1 / 2],
            group_dr = (\<lambda>g. ex_gd),
            sample_eta_west = (\<lambda>e k n. e),
            sample_stick = (\<lambda>oc e. replicate (length oc) (- 1)),
            jeffreys_phi = (\<lambda>s1 s2 n. (s1 / real n, 1)),
            jeffreys_mu = (\<lambda>s1 s2 n. (s1 / real n, 1)),
            jeffreys_beta = (\<lambda>s1 s2 n. (s1 / real n, 1))\<rparr>"

definition ex_m2 :: model where
  "ex_m2 = ex_m0\<lparr>iter := 1, log_phi := [1, 0]\<rparr>"

definition ex_m3 :: model where
  "ex_m3 = ex_m0\<lparr>iter := 1, log_phi := [1, 0], log_mu := [1, 0]\<rparr>"

definition ex_m4 :: model where
  "ex_m4 = ex_m0\<lparr>iter := 1, log_phi := [1, 0], log_mu := [1, 0], beta := [0, 1, 3]\<rparr>"

definition ex_args :: group_args where
  "ex_args = ([0, 1], [1, 1], [- ln 2, - ln 2], ln 2, [[1], [2]], [1],
       ([1, 0], [1, 0], [0, 1, 3], [- ln 3, - ln 3, - ln 3]))"

definition ex_res :: group_result where
  "ex_res = ([0, 1], [0, 1], [0, 1], [- 1, - 1], ln 2)"

definition ex_m1 :: model where
  "ex_m1 = \<lparr>ngroups = 2, nfeatures = 2, nsamples = 2, thr = 3 / 10, iter = 1,
     mu1 = 1 / 2, tau1 = 1, mu2 = 1 / 2, tau2 = 1, m0 = 0, t0 = 1,
     log_phi = [1, 0], log_mu = [1, 0], eta = ln 3, zeta = [ln 2, ln 2],
     lw = [- 1, - 1, - 1], lu = [[- ln 2, - ln 2], [- 1, - 1]],
     beta = [0, 1, 3], c = [[0, 0], [0, 1]], d = [[0, 0], [0, 1]], z = [[0, 0], [0, 1]],
     occ = [1, 1, 0], iact = [True, True, False], nact = 2\<rparr>"

text \<open>
  \<open>ex_mh\<close> is \<open>ex_m1\<close> with three features and three cells of \<open>z\<close> in clusters other
  than 0, for the hyper-parameter update.
\<close>

definition ex_mh :: model where
  "ex_mh = ex_m1\<lparr>z := [[0, 0, 0], [1, 2, 1]]\<rparr>"

subsection \<open>The group-level update on the arrays it is given\<close>

text \<open>
  \<^verbatim>\<open>_update_group_vars\<close> receives numpy arrays, and \<^verbatim>\<open>d[idxs] = d_[idxs]\<close>,
  \<^verbatim>\<open>c[idxs] = c_[idxs]\<close> and \<^verbatim>\<open>c[~iact] = c_[~iact]\<close> write into the arrays \<open>d\<close> and \<open>c\<close>
  of the caller. To state what the call does to its arguments, \<open>store\<close> maps the
  address of an array to its content (integer arrays, float arrays and the matrices of
  counts), \<open>group_refs\<close> holds the addresses of the arguments (and the float \<open>zeta\<close>),
  and \<open>update_group_vars_st\<close> is the function statement by statement, every read and
  every write going through the store. The arrays \<^verbatim>\<open>c[d]\<close> and \<open>lu\<close> it returns are
  new arrays, returned as values; the \<open>c\<close> and \<open>d\<close> it returns are its arguments.
\<close>

record store =
  ints :: "nat \<Rightarrow> nat list"
  reals :: "nat \<Rightarrow> real list"
  mats :: "nat \<Rightarrow> nat list list"

record group_refs =
  c_ref :: nat
  d_ref :: nat
  lu_ref :: nat
  zeta_val :: real
  counts_ref :: nat
  lib_sizes_ref :: nat
  log_phi_ref :: nat
  log_mu_ref :: nat
  beta_ref :: nat
  lw_ref :: nat

definition set_ints :: "store \<Rightarrow> nat \<Rightarrow> nat list \<Rightarrow> store" where
  "set_ints s a v = s\<lparr>ints := (ints s)(a := v)\<rparr>"

definition store_loglik ::
  "kernel \<Rightarrow> group_refs \<Rightarrow> store \<Rightarrow> nat list \<Rightarrow> nat list \<Rightarrow> fval list result" where
  "store_loglik nbinomln r s cs ds =
     group_loglik nbinomln (mats s (counts_ref r)) (reals s (lib_sizes_ref r))
       (reals s (log_phi_ref r)) (reals s (log_mu_ref r)) (reals s (beta_ref r)) cs ds"

definition update_group_vars_st ::
  "kernel \<Rightarrow> group_draws \<Rightarrow> group_refs \<Rightarrow> store
   \<Rightarrow> ((nat \<times> nat \<times> nat list \<times> real list \<times> real) \<times> store) result" where
  "update_group_vars_st nbinomln gd r s =
     (let d_p = d_prop gd in
      rbind (store_loglik nbinomln r s (ints s (c_ref r)) (ints s (d_ref r))) (\<lambda>loglik.
      rbind (store_loglik nbinomln r s (ints s (c_ref r)) d_p) (\<lambda>loglik_p.
      rbind (mask_assign (ints s (d_ref r)) (accepts (u_d gd) loglik_p loglik) d_p) (\<lambda>ds'.
      let s1 = set_ints s (d_ref r) ds';
          oc = bincount (ints s1 (d_ref r)) (length (reals s1 (lu_ref r)));
          ia = map (\<lambda>n. 0 < n) oc;
          kact = count_true ia
      in
      if c_prop gd = [] then Inl IndexError
      else
        let c_p = (c_prop gd)[0 := 0] in
        rbind (store_loglik nbinomln r s1 (ints s1 (c_ref r)) (ints s1 (d_ref r))) (\<lambda>loglik.
        rbind (store_loglik nbinomln r s1 c_p (ints s1 (d_ref r))) (\<lambda>loglik_p.
        rbind (bincount_w (ints s1 (d_ref r)) loglik (length (reals s1 (lu_ref r)))) (\<lambda>loglik.
        rbind (bincount_w (ints s1 (d_ref r)) loglik_p (length (reals s1 (lu_ref r)))) (\<lambda>loglik_p.
        rbind (mask_assign (ints s1 (c_ref r)) (accepts (u_c gd) loglik_p loglik) c_p) (\<lambda>cs'.
        let s2 = set_ints s1 (c_ref r) cs' in
        rbind (mask_assign (ints s2 (c_ref r)) (map Not ia) c_p) (\<lambda>cs''.
        let s3 = set_ints s2 (c_ref r) cs'';
            zet' = g_sample_eta_west gd (zeta_val r) kact (sum_list oc);
            lus' = g_sample_stick gd oc zet'
        in rbind (getitems (ints s3 (c_ref r)) (ints s3 (d_ref r))) (\<lambda>zs.
           Inr ((c_ref r, d_ref r, zs, lus', zet'), s3))))))))))))"

text \<open>The arguments of a call: what the addresses of \<open>r\<close> hold in the store \<open>s\<close>.\<close>

definition args_of :: "group_refs \<Rightarrow> store \<Rightarrow> group_args" where
  "args_of r s =
     (ints s (c_ref r), ints s (d_ref r), reals s (lu_ref r), zeta_val r,
      mats s (counts_ref r), reals s (lib_sizes_ref r),
      (reals s (log_phi_ref r), reals s (log_mu_ref r), reals s (beta_ref r),
       reals s (lw_ref r)))"

text \<open>
  The arrays of the group 1 of the small run before its group-level update: \<open>c\<close> at
  address 0 and \<open>d\<close> at address 1 of the integer arrays; \<open>ex_store2\<close> is the store
  after the three writes of the call.
\<close>

definition ex_store :: store where
  "ex_store =
     \<lparr>ints = (\<lambda>a. if a = 0 then [0, 1] else if a = 1 then [1, 1] else []),
      reals = (\<lambda>a. if a = 0 then [- ln 2, - ln 2] else if a = 1 then [1]
                    else if a = 2 then [1, 0] else if a = 3 then [1, 0]
                    else if a = 4 then [0, 1, 3] else if a = 5 then [- ln 3, - ln 3, - ln 3]
                    else []),
      mats = (\<lambda>a. if a = 0 then [[1], [2]] else [])\<rparr>"

definition ex_refs :: group_refs where
  "ex_refs = \<lparr>c_ref = 0, d_ref = 1, lu_ref = 0, zeta_val = ln 2, counts_ref = 0,
               lib_sizes_ref = 1, log_phi_ref = 2, log_mu_ref = 3, beta_ref = 4, lw_ref = 5\<rparr>"

definition ex_store2 :: store where
  "ex_store2 = set_ints (set_ints (set_ints ex_store 1 [0, 1]) 0 [0, 1]) 0 [0, 1]"

subsection \<open>A run with three features\<close>

text \<open>
  Three features, two groups of one sample each, \<open>ntrunc = (3, 3)\<close>, the default
  \<open>init_hpars = (0, 1)\<close> and \<open>thr = 0.3\<close>. The kernel \<open>ex2_nb\<close> depends on the count,
  on \<open>alpha\<close> and on \<open>p\<close>, so that the samples of a feature have different
  log-likelihoods; the generator of \<open>ex2_dr\<close> returns the proposals for the calls with
  the hyper-parameters of \<open>ex2_m0\<close> and zeros for any other call. \<open>ex2_m2\<close>, \<open>ex2_m3\<close>
  and \<open>ex2_m4\<close> are the states after \<^verbatim>\<open>_update_phi\<close>, \<^verbatim>\<open>_update_mu\<close> and
  \<^verbatim>\<open>_update_beta\<close>, \<open>ex2_m1\<close> the state after the sweep.
\<close>

definition ex2_dat :: count_data where
  "ex2_dat = \<lparr>groups = 2, counts_shape = (3, 2), counts_values = [[3, 0], [1, 1], [1, 1]]\<rparr>"

definition ex2_idr :: init_draws where
  "ex2_idr = \<lparr>log_phi0 = [0, 0, 0], log_mu0 = [0, 0, 0], beta0 = [1, 3],
               c0 = [[1, 2, 1], [2, 1, 2]], d0 = [[1, 0, 1], [1, 1, 2]]\<rparr>"

definition ex2_logs :: "real list" where
  "ex2_logs = map (\<lambda>x. ln (real x + 1)) (concat (counts_values ex2_dat))"

definition ex2_m0 :: model where
  "ex2_m0 = \<lparr>ngroups = 2, nfeatures = 3, nsamples = 2, thr = 3 / 10, iter = 0,
     mu1 = ln (\<bar>np_var ex2_logs - np_mean ex2_logs\<bar> / np_mean ex2_logs ^ 2), tau1 = 1,
     mu2 = np_mean ex2_logs, tau2 = 1 / np_var ex2_logs, m0 = 0, t0 = 1,
     log_phi = [0, 0, 0], log_mu = [0, 0, 0], eta = ln 3, zeta = [ln 3, ln 3],
     lw = [- ln 3, - ln 3, - ln 3],
     lu = [[- ln 3, - ln 3, - ln 3], [- ln 3, - ln 3, - ln 3]],
     beta = [0, 1, 3], c = [[0, 0, 0], [0, 1, 2]], d = [[0, 0, 0], [1, 1, 2]],
     z = [[0, 0, 0], [1, 1, 2]], occ = [0, 2, 1], iact = [False, True, True], nact = 2\<rparr>"

definition ex2_nb :: kernel where
  "ex2_nb = (\<lambda>cnt a p. if a = 1 then (if p = 1 / 2 then Finite (- real cnt)
                                       else Finite (- real cnt - 1))
                         else Finite (real cnt - 3))"

definition ex2_data :: data where
  "ex2_data = ([[3, 0], [1, 1], [1, 1]], [1, 1], PerGroup [1, 1])"

definition ex2_gd :: group_draws where
  "ex2_gd = \<lparr>d_prop = [1, 2, 1], u_d = [1 / 2, 1 / 2, 1 / 2], c_prop = [1, 2, 1],
             u_c = [1 / 2, 1 / 2, 1 / 2],
             g_sample_eta_west = (\<lambda>e k n. e),
             g_sample_stick = (\<lambda>oc e. replicate (length oc) (- 1))\<rparr>"

definition ex2_dr :: sweep_draws where
  "ex2_dr = \<lparr>rn_normal_phi = (\<lambda>loc scale n.
                if loc = mu1 ex2_m0 \<and> scale = 1 \<and> n = 3 then [1, 1, 1] else replicate n 0),
             u_phi = [9 / 10, 1 / 2, 1 / 10],
             rn_normal_mu = (\<lambda>loc scale n.
                if loc = mu2 ex2_m0 \<and> scale = 1 / sqrt (tau2 ex2_m0) \<and> n = 3 then [1, 1, 1]
                else replicate n 0),
             u_mu = [1 / 2, 1 / 2, 1 / 2],
             rn_normal_beta = (\<lambda>loc scale n.
                if loc = 0 \<and> scale = 1 \<and> n = 2 then [2, 4] else replicate n 0),
             u_beta = [1 / 2, 1 / 2, 1 / 2],
             group_dr = (\<lambda>g. ex2_gd),
             sample_eta_west = (\<lambda>e k n. e),
             sample_stick = (\<lambda>oc e. replicate (length oc) (- 1)),
             jeffreys_phi = (\<lambda>s1 s2 n. (s1 / real n, real n / s2)),
             jeffreys_mu = (\<lambda>s1 s2 n. (s1 / real n, real n / s2)),
             jeffreys_beta = (\<lambda>s1 s2 n. (s1 / real n, real n / s2))\<rparr>"

definition ex2_m2 :: model where
  "ex2_m2 = ex2_m0\<lparr>iter := 1, log_phi := [1, 0, 1]\<rparr>"

definition ex2_m3 :: model where
  "ex2_m3 = ex2_m0\<lparr>iter := 1, log_phi := [1, 0, 1], log_mu := [1, 0, 1]\<rparr>"

definition ex2_m4 :: model where
  "ex2_m4 = ex2_m0\<lparr>iter := 1, log_phi := [1, 0, 1], log_mu := [1, 0, 1], beta := [0, 2, 4]\<rparr>"

definition ex2_args :: group_args where
  "ex2_args = ([0, 1, 2], [1, 1, 2], [- ln 3, - ln 3, - ln 3], ln 3, [[0], [1], [1]], [1],
       ([1, 0, 1], [1, 0, 1], [0, 2, 4], [- ln 3, - ln 3, - ln 3]))"

definition ex2_res :: group_result where
  "ex2_res = ([0, 2, 1], [1, 2, 1], [2, 1, 2], [- 1, - 1, - 1], ln 3)"

definition ex2_m1 :: model where
  "ex2_m1 = \<lparr>ngroups = 2, nfeatures = 3, nsamples = 2, thr = 3 / 10, iter = 1,
     mu1 = 2 / 3, tau1 = 3 / 2, mu2 = 2 / 3, tau2 = 3 / 2, m0 = 10 / 3, t0 = 1 / 12,
     log_phi = [1, 0, 1], log_mu = [1, 0, 1], eta = ln 3, zeta = [ln 3, ln 3],
     lw = [- 1, - 1, - 1], lu = [[- ln 3, - ln 3, - ln 3], [- 1, - 1, - 1]],
     beta = [0, 2, 4], c = [[0, 0, 0], [0, 2, 1]], d = [[0, 0, 0], [1, 2, 1]],
     z = [[0, 0, 0], [2, 1, 2]], occ = [0, 1, 2], iact = [False, True, True], nact = 2\<rparr>"

section \<open>Properties\<close>

subsection \<open>Results of the numpy operations\<close>

lemma rbind_Inr: "rbind r f = Inr y \<longleftrightarrow> (\<exists>x. r = Inr x \<and> f x = Inr y)"
  by (cases r) (simp_all add: rbind_def)

lemma mapM_Inr: "mapM f xs = Inr ys \<longleftrightarrow> list_all2 (\<lambda>x y. f x = Inr y) xs ys"
  by (induction xs arbitrary: ys) (auto simp: rbind_Inr list_all2_Cons1)

lemma getitems_Inr:
  "getitems xs idx = Inr ys \<longleftrightarrow> (\<forall>i\<in>set idx. i < length xs) \<and> ys = map (\<lambda>i. xs ! i) idx"
  by (auto simp: getitems_def list_all_iff)

lemma mask_assign_Inr:
  "mask_assign xs msk ys = Inr r \<longleftrightarrow>
     length msk = length ys \<and> length msk = length xs \<and>
     r = map (\<lambda>(x, b, y). if b then y else x) (zip xs (zip msk ys))"
  by (auto simp: mask_assign_def)

lemma mask_assign_nth:
  assumes "mask_assign xs msk ys = Inr r"
  shows "length r = length xs" and "length msk = length xs" and "length ys = length xs"
    and "i < length xs \<Longrightarrow> r ! i = (if msk ! i then ys ! i else xs ! i)"
  using assms by (auto simp: mask_assign_Inr)

lemma snap_Inr:
  assumes "snap bet th zs = Inr zs'"
  shows "length zs' = length zs"
    and "g < length zs \<Longrightarrow> length (zs' ! g) = length (zs ! g)"
    and "g < length zs \<Longrightarrow> f < length (zs ! g) \<Longrightarrow> zs ! g ! f < length bet"
    and "g < length zs \<Longrightarrow> f < length (zs ! g) \<Longrightarrow>
           zs' ! g ! f = (if \<bar>bet ! (zs ! g ! f)\<bar> < th then 0 else zs ! g ! f)"
proof -
  from assms obtain bz where bz: "list_all2 (\<lambda>x y. getitems bet x = Inr y) zs bz"
    and zs': "zs' = map (\<lambda>(zrow, brow). map (\<lambda>(k, b). if \<bar>b\<bar> < th then 0 else k) (zip zrow brow)) (zip zs bz)"
    by (auto simp: snap_def rbind_Inr getitems2_def mapM_Inr)
  have len: "length bz = length zs" using bz by (simp add: list_all2_lengthD)
  show "length zs' = length zs" using zs' len by simp
  { fix g assume g: "g < length zs"
    then have row: "getitems bet (zs ! g) = Inr (bz ! g)" using bz by (auto dest: list_all2_nthD)
    then have r1: "\<forall>i\<in>set (zs ! g). i < length bet" and r2: "bz ! g = map (\<lambda>i. bet ! i) (zs ! g)"
      by (auto simp: getitems_Inr)
    show "length (zs' ! g) = length (zs ! g)" using g len zs' r2 by simp
    { fix f assume f: "f < length (zs ! g)"
      show "zs ! g ! f < length bet" using r1 f by simp
      show "zs' ! g ! f = (if \<bar>bet ! (zs ! g ! f)\<bar> < th then 0 else zs ! g ! f)"
        using g f len zs' r2 by simp
    }
  }
qed


subsection \<open>The steps of a sweep\<close>

lemma update_phi_Inr:
  "update_phi nb dat p us m = Inr m' \<Longrightarrow> m' = m\<lparr>log_phi := log_phi m'\<rparr>"
  by (auto simp: update_phi_def rbind_Inr)

lemma update_mu_Inr:
  "update_mu nb dat p us m = Inr m' \<Longrightarrow> m' = m\<lparr>log_mu := log_mu m'\<rparr>"
  by (auto simp: update_mu_def rbind_Inr)

lemma update_beta_Inr:
  assumes "update_beta nb dat bn us m = Inr m'"
  shows "\<exists>b1 msk. mask_assign (beta m) msk (0 # bn) = Inr b1 \<and>
           mask_assign b1 (map Not (iact m)) (0 # bn) = Inr (beta m') \<and> m' = m\<lparr>beta := beta m'\<rparr>"
  using assms
  by (auto simp: update_beta_def rbind_Inr Let_def split: prod.splits if_splits)

lemma update_beta_zero:
  assumes "update_beta nb dat bn us m = Inr m'" and "beta m ! 0 = 0"
  shows "beta m' \<noteq> []" and "beta m' ! 0 = 0" and "length (beta m') = length (beta m)"
proof -
  from update_beta_Inr[OF assms(1)] obtain b1 msk where
    a: "mask_assign (beta m) msk (0 # bn) = Inr b1"
    and b: "mask_assign b1 (map Not (iact m)) (0 # bn) = Inr (beta m')" by blast
  have l1: "length b1 = length (beta m)" "length (beta m) = length (0 # bn)"
    using mask_assign_nth(1,3)[OF a] by simp_all
  have l2: "length (beta m') = length b1" using mask_assign_nth(1)[OF b] .
  show "length (beta m') = length (beta m)" using l1 l2 by simp
  show "beta m' \<noteq> []" using l1 l2 by auto
  have pos: "0 < length (beta m)" using l1 by simp
  have "b1 ! 0 = 0" using mask_assign_nth(4)[OF a pos] assms(2) by simp
  moreover have "0 < length b1" using l1 pos by simp
  ultimately show "beta m' ! 0 = 0" using mask_assign_nth(4)[OF b, of 0] by simp
qed

lemma update_hpars_Inr:
  "update_hpars dr m = Inr m' \<Longrightarrow>
     m' = m\<lparr>mu1 := mu1 m', tau1 := tau1 m', mu2 := mu2 m', tau2 := tau2 m',
            m0 := m0 m', t0 := t0 m'\<rparr>"
  by (auto simp: update_hpars_def rbind_Inr Let_def)

lemma update_hpars_same:
  assumes "update_hpars dr m = Inr m'"
  shows "c m' = c m" "d m' = d m" "z m' = z m" "beta m' = beta m" "thr m' = thr m"
    "occ m' = occ m" "iact m' = iact m" "nact m' = nact m" "lw m' = lw m"
    "ngroups m' = ngroups m" "nfeatures m' = nfeatures m"
  using assms by (auto simp: update_hpars_def rbind_Inr Let_def)

lemma update_group_vars_Inr:
  "update_group_vars nb gd args = Inr (cs', ds', zs, lus', zet') \<Longrightarrow> getitems cs' ds' = Inr zs"
  by (auto simp: update_group_vars_def rbind_Inr Let_def split: prod.splits if_splits)

lemma group_results_Inr:
  assumes "group_results nb dr args = Inr rs" and "j < length rs"
  shows "getitems (fst (rs ! j)) (fst (snd (rs ! j))) = Inr (fst (snd (snd (rs ! j))))"
proof -
  from assms(1) have la: "list_all2 (\<lambda>x y. (case x of (g, a) \<Rightarrow> update_group_vars nb (group_dr dr g) a) = Inr y)
      (zip [1..<Suc (length args)] args) rs"
    by (simp add: group_results_def mapM_Inr)
  from list_all2_nthD2[OF la assms(2)]
  obtain g a where "update_group_vars nb (group_dr dr g) a = Inr (rs ! j)"
    by (auto split: prod.splits)
  then show ?thesis
    using update_group_vars_Inr[of nb "group_dr dr g" a "fst (rs ! j)" "fst (snd (rs ! j))"
        "fst (snd (snd (rs ! j)))" "fst (snd (snd (snd (rs ! j))))" "snd (snd (snd (snd (rs ! j))))"]
    by simp
qed

lemma assign_tail_Inr:
  "assign_tail a rows = Inr r \<longleftrightarrow> a \<noteq> [] \<and> map length rows = map length (tl a) \<and> r = hd a # rows"
  by (auto simp: assign_tail_def)

lemma finish_sweep_Inr:
  assumes "finish_sweep dr rs m = Inr m'"
  shows "\<exists>z1. c m \<noteq> [] \<and> d m \<noteq> [] \<and> z m \<noteq> [] \<and>
           c m' = hd (c m) # map (\<lambda>(cs, ds, zs, lus, zet). cs) rs \<and>
           d m' = hd (d m) # map (\<lambda>(cs, ds, zs, lus, zet). ds) rs \<and>
           z1 = hd (z m) # map (\<lambda>(cs, ds, zs, lus, zet). zs) rs \<and>
           snap (beta m) (thr m) z1 = Inr (z m') \<and>
           beta m' = beta m \<and> thr m' = thr m \<and>
           occ m' = bincount (concat (tl (z m'))) (length (lw m)) \<and>
           iact m' = map (\<lambda>n. 0 < n) (occ m') \<and>
           nact m' = count_true (iact m') \<and>
           length (lw m') = length (lw m) \<and>
           ngroups m' = ngroups m \<and> nfeatures m' = nfeatures m \<and>
           map length (map (\<lambda>(cs, ds, zs, lus, zet). cs) rs) = map length (tl (c m)) \<and>
           map length (map (\<lambda>(cs, ds, zs, lus, zet). ds) rs) = map length (tl (d m))"
proof -
  from assms obtain c' d' z1 lu' zeta' z' eta' lw' where
    s: "c m \<noteq> []" "d m \<noteq> []" "z m \<noteq> []"
      "c' = hd (c m) # map (\<lambda>(cs, ds, zs, lus, zet). cs) rs"
      "d' = hd (d m) # map (\<lambda>(cs, ds, zs, lus, zet). ds) rs"
      "z1 = hd (z m) # map (\<lambda>(cs, ds, zs, lus, zet). zs) rs"
      "snap (beta m) (thr m) z1 = Inr z'"
      "length lw' = length (lw m)"
      "map length (map (\<lambda>(cs, ds, zs, lus, zet). cs) rs) = map length (tl (c m))"
      "map length (map (\<lambda>(cs, ds, zs, lus, zet). ds) rs) = map length (tl (d m))"
    and hp: "update_hpars dr
        (m\<lparr>c := c', d := d', z := z', lu := lu', zeta := zeta',
           occ := bincount (concat (tl z')) (length (lw m)),
           iact := map (\<lambda>n. 0 < n) (bincount (concat (tl z')) (length (lw m))),
           nact := count_true (map (\<lambda>n. 0 < n) (bincount (concat (tl z')) (length (lw m)))),
           eta := eta', lw := lw'\<rparr>) = Inr m'"
    by (auto simp: finish_sweep_def rbind_Inr Let_def assign_tail_Inr split: if_splits)
  show ?thesis
    using s update_hpars_same[OF hp] by simp
qed


lemma update_phi_same:
  assumes "update_phi nb dat p us m = Inr m'"
  shows "c m' = c m" "d m' = d m" "z m' = z m" "beta m' = beta m" "thr m' = thr m"
    "occ m' = occ m" "iact m' = iact m" "lw m' = lw m" "log_mu m' = log_mu m"
    "m0 m' = m0 m" "t0 m' = t0 m" "ngroups m' = ngroups m" "nfeatures m' = nfeatures m"
  using assms by (auto simp: update_phi_def rbind_Inr)

lemma update_mu_same:
  assumes "update_mu nb dat p us m = Inr m'"
  shows "c m' = c m" "d m' = d m" "z m' = z m" "beta m' = beta m" "thr m' = thr m"
    "occ m' = occ m" "iact m' = iact m" "lw m' = lw m" "log_phi m' = log_phi m"
    "m0 m' = m0 m" "t0 m' = t0 m" "ngroups m' = ngroups m" "nfeatures m' = nfeatures m"
  using assms by (auto simp: update_mu_def rbind_Inr)

lemma update_beta_same:
  assumes "update_beta nb dat bn us m = Inr m'"
  shows "c m' = c m" "d m' = d m" "z m' = z m" "thr m' = thr m"
    "occ m' = occ m" "iact m' = iact m" "lw m' = lw m"
    "m0 m' = m0 m" "t0 m' = t0 m" "ngroups m' = ngroups m" "nfeatures m' = nfeatures m"
  using assms
  by (auto simp: update_beta_def rbind_Inr Let_def split: prod.splits if_splits)

lemma update_Inr:
  assumes "update nb dat dr m = Inr m'"
  shows "\<exists>m2 m3 m4 rs.
           update_phi nb dat (propose_log_phi dr (m\<lparr>iter := iter m + 1\<rparr>)) (u_phi dr) (m\<lparr>iter := iter m + 1\<rparr>) = Inr m2 \<and>
           update_mu nb dat (propose_log_mu dr m2) (u_mu dr) m2 = Inr m3 \<and>
           update_beta nb dat (propose_beta dr m3) (u_beta dr) m3 = Inr m4 \<and>
           group_results nb dr (group_args_list dat m4) = Inr rs \<and>
           finish_sweep dr rs m4 = Inr m'"
  using assms by (auto simp: update_def rbind_Inr)

subsection \<open>The invariant holds in every reachable state\<close>

lemma update_wf:
  assumes w: "wf m" and u: "update nb dat dr m = Inr m'"
  shows "wf m'"
proof -
  from update_Inr[OF u] obtain m2 m3 m4 rs where
    p: "update_phi nb dat (propose_log_phi dr (m\<lparr>iter := iter m + 1\<rparr>)) (u_phi dr) (m\<lparr>iter := iter m + 1\<rparr>) = Inr m2"
    and q: "update_mu nb dat (propose_log_mu dr m2) (u_mu dr) m2 = Inr m3"
    and b: "update_beta nb dat (propose_beta dr m3) (u_beta dr) m3 = Inr m4"
    and g: "group_results nb dr (group_args_list dat m4) = Inr rs"
    and f: "finish_sweep dr rs m4 = Inr m'" by blast
  have same: "c m4 = c m" "d m4 = d m" "z m4 = z m" "thr m4 = thr m"
    "ngroups m4 = ngroups m" "nfeatures m4 = nfeatures m"
    using update_phi_same[OF p] update_mu_same[OF q] update_beta_same[OF b] by simp_all
  have "beta m3 ! 0 = 0"
    using update_phi_same(4)[OF p] update_mu_same(4)[OF q] w by (simp add: wf_def)
  from update_beta_zero[OF b this] have b4: "beta m4 \<noteq> []" "beta m4 ! 0 = 0" by simp_all
  from finish_sweep_Inr[OF f] obtain z1 where
    F: "c m' = hd (c m) # map (\<lambda>(cs, ds, zs, lus, zet). cs) rs"
      "d m' = hd (d m) # map (\<lambda>(cs, ds, zs, lus, zet). ds) rs"
      "z1 = hd (z m) # map (\<lambda>(cs, ds, zs, lus, zet). zs) rs"
      "snap (beta m') (thr m') z1 = Inr (z m')"
      "beta m' = beta m4" "thr m' = thr m4"
      "occ m' = bincount (concat (tl (z m'))) (length (lw m'))"
      "iact m' = map (\<lambda>n. 0 < n) (occ m')"
      "ngroups m' = ngroups m" "nfeatures m' = nfeatures m"
      "map length (map (\<lambda>(cs, ds, zs, lus, zet). cs) rs) = map length (tl (c m))"
      "map length (map (\<lambda>(cs, ds, zs, lus, zet). ds) rs) = map length (tl (d m))"
    by (auto simp: same)
  have ne: "c m \<noteq> []" "d m \<noteq> []" "z m \<noteq> []" "length (c m) = ngroups m"
    "length (d m) = ngroups m"
    using w by (auto simp: wf_def)
  have r0: "c m' ! 0 = c m ! 0" "d m' ! 0 = d m ! 0" "z1 ! 0 = z m ! 0"
    using F ne by (simp_all add: hd_conv_nth)
  have pos: "0 < ngroups m" using w by (simp add: wf_def)
  have "length rs = length (tl (c m))" using F(11) by (metis length_map)
  then have nrs: "Suc (length rs) = ngroups m" using ne pos by simp
  have lens: "length (c m') = ngroups m" "length (d m') = ngroups m"
    "length z1 = ngroups m" using F nrs by simp_all
  note sn = snap_Inr[OF F(4)]
  have w0: "length (z m ! 0) = nfeatures m" "length (d m ! 0) = nfeatures m"
    "\<And>f. f < nfeatures m \<Longrightarrow> d m ! 0 ! f < length (c m ! 0)"
    "\<forall>x\<in>set (c m ! 0). x = 0" "\<forall>x\<in>set (d m ! 0). x = 0" "\<forall>x\<in>set (z m ! 0). x = 0"
    "\<And>g. g < ngroups m \<Longrightarrow> length (d m ! g) = nfeatures m"
    using w ne by (auto simp: wf_def)
  have z0: "\<forall>x\<in>set (z m' ! 0). x = 0"
  proof
    fix x assume "x \<in> set (z m' ! 0)"
    then obtain i where i: "i < length (z m' ! 0)" "x = z m' ! 0 ! i"
      by (auto simp: in_set_conv_nth)
    have i1: "i < length (z1 ! 0)" using i sn(2)[of 0] lens pos by simp
    have "z1 ! 0 ! i = 0" using i1 r0 w0(6) by simp
    then show "x = 0" using sn(4)[of 0 i] i1 i lens pos by simp
  qed
  have rows: "length (d m' ! g) = nfeatures m \<and> length (z m' ! g) = nfeatures m \<and>
        (\<forall>f<nfeatures m.
           d m' ! g ! f < length (c m' ! g) \<and>
           c m' ! g ! (d m' ! g ! f) < length (beta m') \<and>
           z m' ! g ! f = (if \<bar>beta m' ! (c m' ! g ! (d m' ! g ! f))\<bar> < thr m' then 0
                          else c m' ! g ! (d m' ! g ! f)))" if gl: "g < ngroups m" for g
  proof (cases g)
    case 0
    have l: "length (z m' ! 0) = nfeatures m" "length (d m' ! 0) = nfeatures m"
      using sn(2)[of 0] lens pos r0 w0(1,2) by simp_all
    { fix f assume fd: "f < nfeatures m"
      have d0: "d m ! 0 ! f < length (c m ! 0)" using w0(3)[OF fd] .
      then have c0: "c m ! 0 ! (d m ! 0 ! f) = 0" using w0(4) by simp
      have "z m' ! 0 ! f = 0" using z0 fd l by simp
      then have "d m' ! 0 ! f < length (c m' ! 0) \<and>
           c m' ! 0 ! (d m' ! 0 ! f) < length (beta m') \<and>
           z m' ! 0 ! f = (if \<bar>beta m' ! (c m' ! 0 ! (d m' ! 0 ! f))\<bar> < thr m' then 0
                          else c m' ! 0 ! (d m' ! 0 ! f))"
        using d0 c0 r0 b4 F(5) by simp
    }
    then show ?thesis using l 0 by blast
  next
    case (Suc j)
    then have j: "j < length rs" using gl nrs by simp
    obtain cs ds zs rest where r: "rs ! j = (cs, ds, zs, rest)" by (cases "rs ! j") auto
    have gi: "getitems cs ds = Inr zs" using group_results_Inr[OF g j] r by simp
    have rw: "c m' ! g = cs" "d m' ! g = ds" "z1 ! g = zs"
      using F(1,2,3) Suc j r by (simp_all add: case_prod_unfold)
    have e: "map length (map (\<lambda>(cs, ds, zs, lus, zet). ds) rs) ! j = map length (tl (d m)) ! j"
      using F(12) by simp
    have jl: "j < length (tl (d m))" using j nrs ne by simp
    have "length ds = length (tl (d m) ! j)" using e j jl r by simp
    also have "tl (d m) ! j = d m ! g" using jl Suc by (simp add: nth_tl)
    finally have dl: "length ds = nfeatures m" using w0(7)[OF gl] by simp
    have zs: "zs = map (\<lambda>i. cs ! i) ds" and inr: "\<forall>i\<in>set ds. i < length cs"
      using gi by (auto simp: getitems_Inr)
    have gz: "g < length z1" using gl lens by simp
    have l: "length (z m' ! g) = nfeatures m" using sn(2)[OF gz] rw zs dl by simp
    { fix f assume fl: "f < nfeatures m"
      then have fz: "f < length (z1 ! g)" using rw zs dl by simp
      have "zs ! f = cs ! (ds ! f)" using zs fl dl by simp
      then have "ds ! f < length cs \<and> cs ! (ds ! f) < length (beta m') \<and>
           z m' ! g ! f = (if \<bar>beta m' ! (cs ! (ds ! f))\<bar> < thr m' then 0 else cs ! (ds ! f))"
        using sn(3)[OF gz fz] sn(4)[OF gz fz] rw inr fl dl by simp
    }
    then show ?thesis using l rw dl by simp
  qed
  show ?thesis
    unfolding wf_def
    using F(5,7,8,9,10) b4 lens sn(1) rows z0 r0 w0(4,5) pos by simp
qed


lemma init_Inr:
  assumes "init dat ntrunc init_hpars eta_arg zeta_arg th dr = Inr m"
  shows "\<exists>zs0. c0 dr \<noteq> [] \<and> d0 dr \<noteq> [] \<and>
           c m = map (\<lambda>r. r[0 := 0]) (map (\<lambda>x. 0) (hd (c0 dr)) # tl (c0 dr)) \<and>
           d m = map (\<lambda>x. 0) (hd (d0 dr)) # tl (d0 dr) \<and>
           mapM (\<lambda>(crow, drow). getitems crow drow) (zip (c m) (d m)) = Inr zs0 \<and>
           snap (beta m) (thr m) zs0 = Inr (z m) \<and>
           beta m = 0 # beta0 dr \<and> thr m = th \<and>
           ngroups m = groups dat \<and> nfeatures m = fst (counts_shape dat) \<and>
           occ m = bincount (concat (tl (z m))) (length (lw m)) \<and>
           iact m = map (\<lambda>n. 0 < n) (occ m) \<and>
           nact m = count_true (iact m)"
  using assms
  by (auto simp: init_def Let_def rbind_Inr split: if_splits)

lemma init_wf:
  assumes v: "valid_init_draws dat ntrunc dr"
    and i: "init dat ntrunc init_hpars eta_arg zeta_arg th dr = Inr m"
  shows "wf m"
proof -
  from init_Inr[OF i] obtain zs0 where
    I: "c0 dr \<noteq> []" "d0 dr \<noteq> []"
      "c m = map (\<lambda>r. r[0 := 0]) (map (\<lambda>x. 0) (hd (c0 dr)) # tl (c0 dr))"
      "d m = map (\<lambda>x. 0) (hd (d0 dr)) # tl (d0 dr)"
      "mapM (\<lambda>(crow, drow). getitems crow drow) (zip (c m) (d m)) = Inr zs0"
      "snap (beta m) (thr m) zs0 = Inr (z m)"
      "beta m = 0 # beta0 dr"
      "ngroups m = groups dat" "nfeatures m = fst (counts_shape dat)"
      "occ m = bincount (concat (tl (z m))) (length (lw m))"
      "iact m = map (\<lambda>n. 0 < n) (occ m)"
    by blast
  have V: "length (c0 dr) = groups dat" "length (d0 dr) = groups dat"
    "\<forall>row\<in>set (d0 dr). length row = fst (counts_shape dat)"
    using v by (auto simp: valid_init_draws_def list_all_iff)
  have pos: "0 < ngroups m" using I(1,8) V(1) by (cases "c0 dr") auto
  have lc: "length (c m) = ngroups m" using I(1,3,8) V(1) pos by simp
  have ld: "length (d m) = ngroups m" using I(2,4,8) V(2) pos by simp
  have c0: "\<forall>x\<in>set (c m ! 0). x = 0"
    using I(3) by (auto dest!: set_update_subset_insert[THEN subsetD])
  have d0: "\<forall>x\<in>set (d m ! 0). x = 0" using I(4) by auto
  have dl: "length (d m ! g) = nfeatures m" if "g < ngroups m" for g
  proof (cases g)
    case 0
    have "hd (d0 dr) \<in> set (d0 dr)" using I(2) by simp
    then show ?thesis using 0 I(4,9) V(3) by simp
  next
    case (Suc j)
    then have "j < length (tl (d0 dr))" using that I(8) V(2) by simp
    then have "tl (d0 dr) ! j \<in> set (d0 dr)"
      by (metis I(2) list.set_sel(2) nth_mem)
    then show ?thesis using Suc I(4,9) V(3) by simp
  qed
  have la: "list_all2 (\<lambda>x y. (case x of (crow, drow) \<Rightarrow> getitems crow drow) = Inr y)
      (zip (c m) (d m)) zs0"
    using I(5) by (simp add: mapM_Inr)
  have lz0: "length zs0 = ngroups m" using list_all2_lengthD[OF la] lc ld by simp
  have row: "zs0 ! g = map (\<lambda>i. c m ! g ! i) (d m ! g) \<and> (\<forall>i\<in>set (d m ! g). i < length (c m ! g))"
    if "g < ngroups m" for g
  proof -
    have "g < length (zip (c m) (d m))" using that lc ld by simp
    from list_all2_nthD[OF la this] have "getitems (c m ! g) (d m ! g) = Inr (zs0 ! g)"
      using that lc ld by simp
    then show ?thesis by (auto simp: getitems_Inr)
  qed
  note sn = snap_Inr[OF I(6)]
  have lz: "length (z m) = ngroups m" using sn(1) lz0 by simp
  have rows: "length (d m ! g) = nfeatures m \<and> length (z m ! g) = nfeatures m \<and>
        (\<forall>f<nfeatures m.
           d m ! g ! f < length (c m ! g) \<and>
           c m ! g ! (d m ! g ! f) < length (beta m) \<and>
           z m ! g ! f = (if \<bar>beta m ! (c m ! g ! (d m ! g ! f))\<bar> < thr m then 0
                          else c m ! g ! (d m ! g ! f)))" if gl: "g < ngroups m" for g
  proof -
    have gz: "g < length zs0" using gl lz0 by simp
    have r: "zs0 ! g = map (\<lambda>i. c m ! g ! i) (d m ! g)"
      and inr: "\<forall>i\<in>set (d m ! g). i < length (c m ! g)" using row[OF gl] by simp_all
    have l: "length (z m ! g) = nfeatures m" using sn(2)[OF gz] r dl[OF gl] by simp
    { fix f assume fl: "f < nfeatures m"
      then have fz: "f < length (zs0 ! g)" using r dl[OF gl] by simp
      have "zs0 ! g ! f = c m ! g ! (d m ! g ! f)" using r fl dl[OF gl] by simp
      then have "d m ! g ! f < length (c m ! g) \<and> c m ! g ! (d m ! g ! f) < length (beta m) \<and>
           z m ! g ! f = (if \<bar>beta m ! (c m ! g ! (d m ! g ! f))\<bar> < thr m then 0
                          else c m ! g ! (d m ! g ! f))"
        using sn(3)[OF gz fz] sn(4)[OF gz fz] inr fl dl[OF gl] by simp
    }
    then show ?thesis using l dl[OF gl] by simp
  qed
  have z0: "\<forall>x\<in>set (z m ! 0). x = 0"
  proof
    fix x assume "x \<in> set (z m ! 0)"
    then obtain i where i: "i < length (z m ! 0)" "x = z m ! 0 ! i"
      by (auto simp: in_set_conv_nth)
    have il: "i < nfeatures m" using i rows[OF pos] by simp
    have dz: "d m ! 0 ! i < length (c m ! 0)" using rows[OF pos] il by simp
    then have "c m ! 0 ! (d m ! 0 ! i) = 0" using c0 by simp
    then show "x = 0" using rows[OF pos] il i by simp
  qed
  show ?thesis
    unfolding wf_def
    using pos lc ld lz I(7,10,11) rows c0 d0 z0 by simp
qed

lemma reachable_wf: "reachable m \<Longrightarrow> wf m"
  by (induction rule: reachable.induct) (auto intro: init_wf update_wf)

subsection \<open>The run on the small data set, evaluated\<close>

lemma ex_init: "init ex_dat (3, 2) (0, 1) None None (3 / 10) ex_idr = Inr ex_m0"
  by (simp add: init_def ex_dat_def ex_idr_def ex_m0_def ex_logs_def Let_def rbind_def
      getitems_def snap_def getitems2_def bincount_def bincount_len_def count_true_def
      upt_conv_Cons numeral_2_eq_2 numeral_3_eq_3)

lemma ex_valid: "valid_init_draws ex_dat (3, 2) ex_idr"
  by (simp add: valid_init_draws_def ex_dat_def ex_idr_def)

lemmas ex_simps = Let_def rbind_def getitems_def getitems2_def snap_def bincount_def
  bincount_len_def bincount_w_def count_true_def mask_assign_def accepts_def accept_def
  fsub_def fsum_def compute_loglik_def bcast_def upt_conv_Cons numeral_2_eq_2 numeral_3_eq_3


lemma ex_phi:
  "update_phi ex_nb ex_data (propose_log_phi ex_dr (ex_m0\<lparr>iter := iter ex_m0 + 1\<rparr>)) (u_phi ex_dr) (ex_m0\<lparr>iter := iter ex_m0 + 1\<rparr>)
     = Inr ex_m2"
  by (simp add: update_phi_def propose_log_phi_def ex_m0_def ex_m2_def ex_dr_def ex_nb_def
      ex_data_def ex_simps)

lemma ex_mu:
  "update_mu ex_nb ex_data (propose_log_mu ex_dr ex_m2) (u_mu ex_dr) ex_m2 = Inr ex_m3"
  by (simp add: update_mu_def propose_log_mu_def ex_m0_def ex_m2_def ex_m3_def ex_dr_def
      ex_nb_def ex_data_def ex_simps)

lemma ex_beta:
  "update_beta ex_nb ex_data (propose_beta ex_dr ex_m3) (u_beta ex_dr) ex_m3 = Inr ex_m4"
  by (simp add: update_beta_def propose_beta_def ex_m0_def ex_m3_def ex_m4_def ex_dr_def
      ex_nb_def ex_data_def ex_simps)

lemma ex_args_list: "group_args_list ex_data ex_m4 = [ex_args]"
  by (simp add: group_args_list_def ex_m4_def ex_m0_def ex_data_def ex_args_def
      hsplit1_def hsplit2_def upt_conv_Cons)

lemma ex_group: "update_group_vars ex_nb ex_gd ex_args = Inr ex_res"
  by (simp add: update_group_vars_def group_loglik_def ex_nb_def ex_gd_def ex_args_def
      ex_res_def ex_simps)

lemma ex_groups: "group_results ex_nb ex_dr (group_args_list ex_data ex_m4) = Inr [ex_res]"
proof -
  have "group_dr ex_dr g = ex_gd" for g by (simp add: ex_dr_def)
  then show ?thesis
    by (simp add: ex_args_list group_results_def ex_group rbind_def upt_conv_Cons)
qed

lemma ex_finish: "finish_sweep ex_dr [ex_res] ex_m4 = Inr ex_m1"
  by (simp add: finish_sweep_def update_hpars_def active_effects_def assign_tail_def
      assign_tail1_def ex_m4_def ex_m0_def ex_m1_def ex_dr_def ex_res_def ex_simps)

lemma ex_update: "update ex_nb ex_data ex_dr ex_m0 = Inr ex_m1"
  unfolding update_def
  by (simp only: ex_phi ex_mu ex_beta ex_groups ex_finish rbind_def sum.case)

lemma ex_reach0: "reachable ex_m0"
  using reach_init[OF ex_valid ex_init] .

lemma ex_reach1: "reachable ex_m1"
  using reach_update[OF ex_reach0 ex_update] .

subsection \<open>Occupancy counts\<close>

lemma bincount_nth:
  "k < length (bincount xs n) \<Longrightarrow> bincount xs n ! k = count_list xs k"
  by (simp add: bincount_def count_list_eq_length_filter) (metis (mono_tags, lifting) filter_cong)

lemma bincount_length: "n \<le> length (bincount xs n)"
  by (simp add: bincount_def bincount_len_def)

lemma count_list_replicate: "count_list (replicate n x) y = (if x = y then n else 0)"
  by (induction n) auto

lemma concat_hd_tl: "xss \<noteq> [] \<Longrightarrow> concat xss = xss ! 0 @ concat (tl xss)"
  by (cases xss) simp_all

subsection \<open>The hyper-parameter update\<close>

lemma getitems2_Inr:
  "getitems2 xs idxs = Inr r \<longleftrightarrow>
     (\<forall>row\<in>set idxs. \<forall>i\<in>set row. i < length xs) \<and> r = map (map (\<lambda>i. xs ! i)) idxs"
  unfolding getitems2_def
proof (induction idxs arbitrary: r)
  case Nil
  show ?case by auto
next
  case (Cons row idxs)
  show ?case by (auto simp: rbind_Inr getitems_Inr Cons)
qed

lemma filter_zip_map:
  "map snd (filter (\<lambda>(k, v). P k) (zip xs (map f xs))) = map f (filter P xs)"
  by (induction xs) simp_all

lemma active_effects_eq:
  "active_effects zs (map (map (\<lambda>i. b ! i)) zs)
     = map (\<lambda>k. b ! k) (filter (\<lambda>k. 0 < k) (concat zs))"
  by (simp add: active_effects_def map_concat[symmetric] filter_zip_map)

lemma sum_list_by_cluster:
  fixes f :: "nat \<Rightarrow> 'a::semiring_1"
  assumes "\<forall>x\<in>set xs. x < K"
  shows "sum_list (map f (filter (\<lambda>k. 0 < k) xs)) = (\<Sum>k = 1..<K. of_nat (count_list xs k) * f k)"
  using assms
proof (induction xs)
  case Nil
  show ?case by simp
next
  case (Cons x xs)
  then have IH: "sum_list (map f (filter (\<lambda>k. 0 < k) xs)) = (\<Sum>k = 1..<K. of_nat (count_list xs k) * f k)"
    and xK: "x < K" by simp_all
  show ?case
  proof (cases "x = 0")
    case True
    have "(\<Sum>k = 1..<K. of_nat (count_list (x # xs) k) * f k) = (\<Sum>k = 1..<K. of_nat (count_list xs k) * f k)"
      by (rule sum.cong) (use True in auto)
    then show ?thesis using True IH by simp
  next
    case False
    then have xin: "x \<in> {1..<K}" using xK by simp
    have "(\<Sum>k = 1..<K. of_nat (count_list (x # xs) k) * f k)
        = (\<Sum>k = 1..<K. of_nat (count_list xs k) * f k + (if x = k then f k else 0))"
      by (rule sum.cong) (auto simp: algebra_simps)
    also have "\<dots> = (\<Sum>k = 1..<K. of_nat (count_list xs k) * f k) + (\<Sum>k = 1..<K. if x = k then f k else 0)"
      by (simp add: sum.distrib)
    also have "(\<Sum>k = 1..<K. if x = k then f k else 0) = f x"
      using xin by (simp add: sum.delta')
    finally show ?thesis using False IH by (simp add: add.commute)
  qed
qed

lemma snap_entries:
  assumes "snap bet th zs = Inr zs'" and "row \<in> set zs'" and "k \<in> set row"
  shows "k < length bet \<and> (0 < k \<longrightarrow> th \<le> \<bar>bet ! k\<bar>)"
proof -
  note sn = snap_Inr[OF assms(1)]
  from assms(2) obtain g where g: "g < length zs'" "row = zs' ! g" by (auto simp: in_set_conv_nth)
  from assms(3) obtain f where f: "f < length row" "k = row ! f" by (auto simp: in_set_conv_nth)
  have gz: "g < length zs" using g sn(1) by simp
  have fz: "f < length (zs ! g)" using f g sn(2)[OF gz] by simp
  have "zs ! g ! f < length bet" using sn(3)[OF gz fz] .
  moreover have "k = (if \<bar>bet ! (zs ! g ! f)\<bar> < th then 0 else zs ! g ! f)"
    using sn(4)[OF gz fz] f g by simp
  ultimately show ?thesis by (auto split: if_splits)
qed

lemma update_hpars_eval:
  assumes "getitems2 (beta m) (z m) = Inr bz"
  shows "update_hpars dr m =
     Inr (m\<lparr>mu1 := fst (jeffreys_phi dr (sum_list (log_phi m))
                         (sum_list (map (\<lambda>x. x ^ 2) (log_phi m))) (length (log_phi m))),
            tau1 := snd (jeffreys_phi dr (sum_list (log_phi m))
                         (sum_list (map (\<lambda>x. x ^ 2) (log_phi m))) (length (log_phi m))),
            mu2 := fst (jeffreys_mu dr (sum_list (log_mu m))
                         (sum_list (map (\<lambda>x. x ^ 2) (log_mu m))) (length (log_mu m))),
            tau2 := snd (jeffreys_mu dr (sum_list (log_mu m))
                         (sum_list (map (\<lambda>x. x ^ 2) (log_mu m))) (length (log_mu m))),
            m0 := fst (if 2 < length (active_effects (z m) bz)
                       then jeffreys_beta dr (sum_list (active_effects (z m) bz))
                              (sum_list (map (\<lambda>x. x ^ 2) (active_effects (z m) bz)))
                              (length (active_effects (z m) bz))
                       else (m0 m, t0 m)),
            t0 := snd (if 2 < length (active_effects (z m) bz)
                       then jeffreys_beta dr (sum_list (active_effects (z m) bz))
                              (sum_list (map (\<lambda>x. x ^ 2) (active_effects (z m) bz)))
                              (length (active_effects (z m) bz))
                       else (m0 m, t0 m))\<rparr>)"
  using assms by (simp add: update_hpars_def rbind_def Let_def)

lemma ex_hpars1: "update_hpars ex_dr ex_m1 = Inr ex_m1"
  by (simp add: update_hpars_def active_effects_def ex_m1_def ex_dr_def ex_simps)

lemma ex_hpars3: "update_hpars ex_dr ex_mh = Inr (ex_mh\<lparr>m0 := 5 / 3, t0 := 1\<rparr>)"
  by (simp add: update_hpars_def active_effects_def ex_mh_def ex_m1_def ex_dr_def ex_simps)

lemma finish_sweep_hpars:
  assumes "finish_sweep dr rs m = Inr m'"
  shows "\<exists>m5 z1. update_hpars dr m5 = Inr m' \<and> snap (beta m) (thr m) z1 = Inr (z m5) \<and>
           beta m5 = beta m \<and> thr m5 = thr m \<and> m0 m5 = m0 m \<and> t0 m5 = t0 m"
proof -
  from assms obtain c' d' z1 lu' zeta' z' oc ia na eta' lw' where
    s: "snap (beta m) (thr m) z1 = Inr z'"
    and hp: "update_hpars dr
        (m\<lparr>c := c', d := d', z := z', lu := lu', zeta := zeta', occ := oc,
           iact := ia, nact := na, eta := eta', lw := lw'\<rparr>) = Inr m'"
    by (auto simp: finish_sweep_def rbind_Inr Let_def split: if_splits)
  show ?thesis
    by (rule exI[of _ "m\<lparr>c := c', d := d', z := z', lu := lu', zeta := zeta', occ := oc,
           iact := ia, nact := na, eta := eta', lw := lw'\<rparr>"], rule exI[of _ z1])
       (use s hp in simp)
qed

subsection \<open>The Metropolis test\<close>

lemma accepts_length:
  "length (accepts us ls' ls) = min (length us) (min (length ls') (length ls))"
  by (simp add: accepts_def)

lemma accepts_nth:
  "f < length (accepts us ls' ls) \<Longrightarrow> accepts us ls' ls ! f = accept (us ! f) (ls' ! f) (ls ! f)"
  by (simp add: accepts_def)

lemma accept_finite: "accept u (Finite a) (Finite b) = (b < a \<or> u < exp (a - b))"
  by (simp add: accept_def fsub_def)

lemma accept_nan: "\<not> accept u NaN l" "\<not> accept u l NaN"
  by (cases l; simp add: accept_def fsub_def)+

lemma accept_interval:
  assumes "a \<le> b"
  shows "{u. 0 \<le> u \<and> u < 1 \<and> accept u (Finite a) (Finite b)} = {u. 0 \<le> u \<and> u < exp (a - b)}"
proof -
  have h: "exp (a - b) \<le> 1" using assms by simp
  have "u < 1" if "u < exp (a - b)" for u using that h by (rule less_le_trans)
  then show ?thesis using assms by (auto simp: accept_finite)
qed

lemma metropolis_assign:
  assumes "mask_assign xs (accepts us (map fsum llp) (map fsum ll)) ys = Inr r"
  shows "length r = length xs" and "length xs \<le> length ll" and "length xs \<le> length llp"
    and "length xs \<le> length us" and "length ys = length xs"
    and "f < length xs \<Longrightarrow>
           r ! f = (if accept (us ! f) (fsum (llp ! f)) (fsum (ll ! f)) then ys ! f else xs ! f)"
proof -
  note m = mask_assign_nth[OF assms]
  have l: "min (length us) (min (length llp) (length ll)) = length xs"
    using m(2) by (simp add: accepts_length)
  show "length r = length xs" using m(1) .
  show "length xs \<le> length ll" "length xs \<le> length llp" "length xs \<le> length us"
    using l by linarith+
  show "length ys = length xs" using m(3) .
  assume f: "f < length xs"
  then have fa: "f < length (accepts us (map fsum llp) (map fsum ll))" using m(2) by simp
  have "f < length llp" "f < length ll" using f l by linarith+
  then show "r ! f = (if accept (us ! f) (fsum (llp ! f)) (fsum (ll ! f)) then ys ! f else xs ! f)"
    using m(4)[OF f] accepts_nth[OF fa] by simp
qed

lemma update_phi_feature:
  assumes "update_phi nbinomln dat lphi_p us m = Inr m'"
  shows "\<exists>bz ll llp.
         getitems2 (beta m) (transpose (z m)) = Inr bz \<and>
         compute_loglik nbinomln dat (log_phi m) (log_mu m) bz = Inr ll \<and>
         compute_loglik nbinomln dat lphi_p (log_mu m) bz = Inr llp \<and>
         length (log_phi m') = length (log_phi m) \<and>
         (\<forall>f<length (log_phi m).
            log_phi m' ! f =
              (if accept (us ! f) (fsum (llp ! f)) (fsum (ll ! f)) then lphi_p ! f
               else log_phi m ! f)) \<and>
         log_mu m' = log_mu m \<and> beta m' = beta m \<and> z m' = z m"
proof -
  from assms obtain bz ll llp lp where
    s: "getitems2 (beta m) (transpose (z m)) = Inr bz"
      "compute_loglik nbinomln dat (log_phi m) (log_mu m) bz = Inr ll"
      "compute_loglik nbinomln dat lphi_p (log_mu m) bz = Inr llp"
    and a: "mask_assign (log_phi m) (accepts us (map fsum llp) (map fsum ll)) lphi_p = Inr lp"
    and m': "m' = m\<lparr>log_phi := lp\<rparr>"
    by (auto simp: update_phi_def rbind_Inr)
  note ma = metropolis_assign[OF a]
  show ?thesis
    using s ma(1) ma(6) m' by (intro exI[of _ bz] exI[of _ ll] exI[of _ llp]) simp
qed

lemma update_mu_feature:
  assumes "update_mu nbinomln dat lmu_p us m = Inr m'"
  shows "\<exists>bz ll llp.
         getitems2 (beta m) (transpose (z m)) = Inr bz \<and>
         compute_loglik nbinomln dat (log_phi m) (log_mu m) bz = Inr ll \<and>
         compute_loglik nbinomln dat (log_phi m) lmu_p bz = Inr llp \<and>
         length (log_mu m') = length (log_mu m) \<and>
         (\<forall>f<length (log_mu m).
            log_mu m' ! f =
              (if accept (us ! f) (fsum (llp ! f)) (fsum (ll ! f)) then lmu_p ! f
               else log_mu m ! f)) \<and>
         log_phi m' = log_phi m \<and> beta m' = beta m \<and> z m' = z m"
proof -
  from assms obtain bz ll llp lp where
    s: "getitems2 (beta m) (transpose (z m)) = Inr bz"
      "compute_loglik nbinomln dat (log_phi m) (log_mu m) bz = Inr ll"
      "compute_loglik nbinomln dat (log_phi m) lmu_p bz = Inr llp"
    and a: "mask_assign (log_mu m) (accepts us (map fsum llp) (map fsum ll)) lmu_p = Inr lp"
    and m': "m' = m\<lparr>log_mu := lp\<rparr>"
    by (auto simp: update_mu_def rbind_Inr)
  note ma = metropolis_assign[OF a]
  show ?thesis
    using s ma(1) ma(6) m' by (intro exI[of _ bz] exI[of _ ll] exI[of _ llp]) simp
qed

lemma compute_loglik_shape:
  assumes "compute_loglik nbinomln dat lp lm bet = Inr ll"
  shows "\<exists>ll'. compute_loglik nbinomln' dat lp lm bet = Inr ll' \<and> length ll' = length ll"
  using assms
  by (cases dat) (auto simp: compute_loglik_def rbind_Inr Let_def split: if_splits)

lemma mask_assign_ok:
  "(\<exists>r. mask_assign xs msk ys = Inr r) \<longleftrightarrow> length msk = length ys \<and> length msk = length xs"
  by (auto simp: mask_assign_def)

lemma update_phi_kernel:
  assumes "update_phi nbinomln dat lphi_p us m = Inr m'"
  shows "\<exists>m''. update_phi nbinomln' dat lphi_p us m = Inr m''"
proof -
  from assms obtain bz ll llp lp where
    s: "getitems2 (beta m) (transpose (z m)) = Inr bz"
      "compute_loglik nbinomln dat (log_phi m) (log_mu m) bz = Inr ll"
      "compute_loglik nbinomln dat lphi_p (log_mu m) bz = Inr llp"
    and a: "mask_assign (log_phi m) (accepts us (map fsum llp) (map fsum ll)) lphi_p = Inr lp"
    by (auto simp: update_phi_def rbind_Inr)
  from compute_loglik_shape[OF s(2)] obtain ll' where
    l1: "compute_loglik nbinomln' dat (log_phi m) (log_mu m) bz = Inr ll'" "length ll' = length ll"
    by blast
  from compute_loglik_shape[OF s(3)] obtain llp' where
    l2: "compute_loglik nbinomln' dat lphi_p (log_mu m) bz = Inr llp'" "length llp' = length llp"
    by blast
  have "\<exists>r. mask_assign (log_phi m) (accepts us (map fsum llp') (map fsum ll')) lphi_p = Inr r"
    using a l1(2) l2(2) unfolding mask_assign_ok
    by (metis a accepts_length length_map mask_assign_nth(2) mask_assign_nth(3))
  then show ?thesis using s(1) l1(1) l2(1) by (auto simp: update_phi_def rbind_def)
qed

lemma update_mu_kernel:
  assumes "update_mu nbinomln dat lmu_p us m = Inr m'"
  shows "\<exists>m''. update_mu nbinomln' dat lmu_p us m = Inr m''"
proof -
  from assms obtain bz ll llp lp where
    s: "getitems2 (beta m) (transpose (z m)) = Inr bz"
      "compute_loglik nbinomln dat (log_phi m) (log_mu m) bz = Inr ll"
      "compute_loglik nbinomln dat (log_phi m) lmu_p bz = Inr llp"
    and a: "mask_assign (log_mu m) (accepts us (map fsum llp) (map fsum ll)) lmu_p = Inr lp"
    by (auto simp: update_mu_def rbind_Inr)
  from compute_loglik_shape[OF s(2)] obtain ll' where
    l1: "compute_loglik nbinomln' dat (log_phi m) (log_mu m) bz = Inr ll'" "length ll' = length ll"
    by blast
  from compute_loglik_shape[OF s(3)] obtain llp' where
    l2: "compute_loglik nbinomln' dat (log_phi m) lmu_p bz = Inr llp'" "length llp' = length llp"
    by blast
  have "\<exists>r. mask_assign (log_mu m) (accepts us (map fsum llp') (map fsum ll')) lmu_p = Inr r"
    using a l1(2) l2(2) unfolding mask_assign_ok
    by (metis a accepts_length length_map mask_assign_nth(2) mask_assign_nth(3))
  then show ?thesis using s(1) l1(1) l2(1) by (auto simp: update_mu_def rbind_def)
qed

lemma ex_loglik:
  "getitems2 (beta ex_m0) (transpose (z ex_m0)) = Inr [[0, 1], [0, 1]]"
  "compute_loglik ex_nb ex_data (log_phi ex_m0) (log_mu ex_m0) [[0, 1], [0, 1]]
     = Inr [[Finite 0, Finite 0], [NaN, NaN]]"
  by (simp_all add: ex_m0_def ex_nb_def ex_data_def ex_simps)

subsection \<open>The group-level update on the store\<close>

lemma set_ints_simps:
  "reals (set_ints s a v) = reals s" "mats (set_ints s a v) = mats s"
  "ints (set_ints s a v) a = v" "b \<noteq> a \<Longrightarrow> ints (set_ints s a v) b = ints s b"
  by (simp_all add: set_ints_def)

lemma store_loglik_set_ints:
  "store_loglik nb r (set_ints s a v) cs ds = store_loglik nb r s cs ds"
  by (simp add: store_loglik_def set_ints_simps)

lemma ex_args_of: "args_of ex_refs ex_store = ex_args"
  by (simp add: args_of_def ex_refs_def ex_store_def ex_args_def)

lemma ex_group_st:
  "update_group_vars_st ex_nb ex_gd ex_refs ex_store =
     Inr ((0, 1, [0, 1], [- 1, - 1], ln 2), ex_store2)"
  by (simp add: update_group_vars_st_def store_loglik_def group_loglik_def set_ints_def
      ex_store2_def ex_store_def ex_refs_def ex_nb_def ex_gd_def ex_simps)

subsection \<open>The run with three features, evaluated\<close>

lemma ex2_init: "init ex2_dat (3, 3) (0, 1) None None (3 / 10) ex2_idr = Inr ex2_m0"
  by (simp add: init_def ex2_dat_def ex2_idr_def ex2_m0_def ex2_logs_def Let_def rbind_def
      getitems_def snap_def getitems2_def bincount_def bincount_len_def count_true_def
      upt_conv_Cons numeral_2_eq_2 numeral_3_eq_3)

lemma ex2_valid: "valid_init_draws ex2_dat (3, 3) ex2_idr"
  by (simp add: valid_init_draws_def ex2_dat_def ex2_idr_def)

lemma exp_bounds:
  "\<not> 1 / 2 < exp (- 1 :: real)" "1 / 10 < exp (- 1 :: real)"
  "\<not> 1 < exp (- 1 :: real) * 2" "1 < exp (- 1 :: real) * 10"
proof -
  have a: "2 \<le> exp (1::real)" using exp_ge_add_one_self[of "1::real"] by simp
  have b: "exp (1::real) \<le> 3" by (rule exp_le)
  have e: "exp (- 1 :: real) = 1 / exp 1" by (simp add: exp_minus inverse_eq_divide)
  show "\<not> 1 / 2 < exp (- 1 :: real)" unfolding e using a by (simp add: field_simps)
  show "1 / 10 < exp (- 1 :: real)" unfolding e using b by (simp add: field_simps)
  show "\<not> 1 < exp (- 1 :: real) * 2" unfolding e using a by (simp add: field_simps)
  show "1 < exp (- 1 :: real) * 10" unfolding e using b by (simp add: field_simps)
qed

lemma half_iff: "(1 / (1 + exp x) = (1::real) / 2) \<longleftrightarrow> x = 0"
proof -
  have "(1 / (1 + exp x) = (1::real) / 2) \<longleftrightarrow> exp x = 1"
    using exp_gt_zero[of x] by (auto simp: field_simps)
  then show ?thesis by simp
qed

lemma ex2_proposals:
  "propose_log_phi ex2_dr (ex2_m0\<lparr>iter := iter ex2_m0 + 1\<rparr>) = [1, 1, 1]"
  "propose_log_mu ex2_dr ex2_m2 = [1, 1, 1]"
  "propose_beta ex2_dr ex2_m3 = [2, 4]"
  by (simp_all add: propose_log_phi_def propose_log_mu_def propose_beta_def ex2_dr_def
      ex2_m0_def ex2_m2_def ex2_m3_def)

lemma ex2_phi:
  "update_phi ex2_nb ex2_data [1, 1, 1] (u_phi ex2_dr) (ex2_m0\<lparr>iter := iter ex2_m0 + 1\<rparr>)
     = Inr ex2_m2"
  by (simp add: update_phi_def ex2_m0_def ex2_m2_def ex2_dr_def ex2_nb_def
      ex2_data_def ex_simps exp_bounds half_iff)

lemma ex2_mu:
  "update_mu ex2_nb ex2_data [1, 1, 1] (u_mu ex2_dr) ex2_m2 = Inr ex2_m3"
  by (simp add: update_mu_def ex2_m0_def ex2_m2_def ex2_m3_def ex2_dr_def ex2_nb_def
      ex2_data_def ex_simps exp_bounds half_iff)

lemma ex2_beta:
  "update_beta ex2_nb ex2_data [2, 4] (u_beta ex2_dr) ex2_m3 = Inr ex2_m4"
  by (simp add: update_beta_def ex2_m0_def ex2_m3_def ex2_m4_def ex2_dr_def ex2_nb_def
      ex2_data_def ex_simps exp_bounds half_iff)

lemma ex2_args_list: "group_args_list ex2_data ex2_m4 = [ex2_args]"
  by (simp add: group_args_list_def ex2_m4_def ex2_m0_def ex2_data_def ex2_args_def
      hsplit1_def hsplit2_def upt_conv_Cons)

lemma ex2_group: "update_group_vars ex2_nb ex2_gd ex2_args = Inr ex2_res"
  by (simp add: update_group_vars_def group_loglik_def ex2_nb_def ex2_gd_def ex2_args_def
      ex2_res_def ex_simps exp_bounds half_iff)

lemma ex2_groups: "group_results ex2_nb ex2_dr (group_args_list ex2_data ex2_m4) = Inr [ex2_res]"
proof -
  have "group_dr ex2_dr g = ex2_gd" for g by (simp add: ex2_dr_def)
  then show ?thesis
    by (simp add: ex2_args_list group_results_def ex2_group rbind_def upt_conv_Cons)
qed

lemma ex2_finish: "finish_sweep ex2_dr [ex2_res] ex2_m4 = Inr ex2_m1"
  by (simp add: finish_sweep_def update_hpars_def active_effects_def assign_tail_def
      assign_tail1_def ex2_m4_def ex2_m0_def ex2_m1_def ex2_dr_def ex2_res_def ex_simps)

lemma ex2_update: "update ex2_nb ex2_data ex2_dr ex2_m0 = Inr ex2_m1"
  unfolding update_def
  by (simp only: ex2_proposals ex2_phi ex2_mu ex2_beta ex2_groups ex2_finish rbind_def sum.case)

lemma ex2_reach0: "reachable ex2_m0"
  using reach_init[OF ex2_valid ex2_init] .

lemma ex2_reach1: "reachable ex2_m1"
  using reach_update[OF ex2_reach0 ex2_update] .

subsection \<open>The rows of log-likelihoods and the proposals of a sweep\<close>

lemma fsum_simps: "fsum [] = Finite 0" "fsum (x # xs) = fadd x (fsum xs)"
  by (simp_all add: fsum_def)

lemma fsum_finite: "fsum (map Finite xs) = Finite (sum_list xs)"
  by (induction xs) (simp_all add: fsum_simps)

lemma bcast_length:
  "length row = n \<or> length row = 1 \<Longrightarrow> length (bcast n row) = n"
  by (auto simp: bcast_def)

lemma compute_loglik_nth:
  assumes "compute_loglik nbinomln (counts, libs, nrep) lp lm bet = Inr ll"
  shows "\<exists>bet_rep. mapM (np_repeat nrep) bet = Inr bet_rep \<and>
     length ll = length counts \<and> length lp = length counts \<and> length lm = length counts \<and>
     (\<forall>f<length counts. length (ll ! f) = length libs \<and>
        (\<forall>s<length libs.
           ll ! f ! s =
             nbinomln (counts ! f ! s) (1 / exp (lp ! f))
               (1 / exp (lp ! f) /
                  (1 / exp (lp ! f)
                   + libs ! s * exp (lm ! f + bcast (length libs) (bet_rep ! f) ! s)))))"
proof -
  from assms obtain bet_rep where
    r: "mapM (np_repeat nrep) bet = Inr bet_rep"
    and l: "length lp = length counts" "length lm = length counts"
      "length bet_rep = length counts"
    and c: "list_all (\<lambda>r. length r = length libs) counts"
    and b: "list_all (\<lambda>r. length r = length libs \<or> length r = 1) bet_rep"
    and ll: "ll = map (\<lambda>(cnts, lp, lm, brow).
                      let alpha = 1 / exp lp in
                      map (\<lambda>(cnt, lib, b).
                             nbinomln cnt alpha (alpha / (alpha + lib * exp (lm + b))))
                        (zip cnts (zip libs (bcast (length libs) brow))))
                   (zip counts (zip lp (zip lm bet_rep)))"
    by (auto simp: compute_loglik_def rbind_Inr split: if_splits)
  have "length (ll ! f) = length libs \<and>
        (\<forall>s<length libs.
           ll ! f ! s =
             nbinomln (counts ! f ! s) (1 / exp (lp ! f))
               (1 / exp (lp ! f) /
                  (1 / exp (lp ! f)
                   + libs ! s * exp (lm ! f + bcast (length libs) (bet_rep ! f) ! s))))"
    if f: "f < length counts" for f
  proof -
    have lc: "length (counts ! f) = length libs"
      using c f by (simp add: list_all_length)
    have lb: "length (bcast (length libs) (bet_rep ! f)) = length libs"
      using b f l by (intro bcast_length) (simp add: list_all_length)
    show ?thesis using f l lc lb by (simp add: ll Let_def)
  qed
  then show ?thesis using r l by (intro exI[of _ bet_rep]) (simp add: ll)
qed

lemma update_phi_rows:
  assumes "update_phi nbinomln dat lphi_p us m = Inr m'"
  shows "\<exists>bz bet_rep ll llp.
         getitems2 (beta m) (transpose (z m)) = Inr bz \<and>
         mapM (np_repeat (snd (snd dat))) bz = Inr bet_rep \<and>
         compute_loglik nbinomln dat (log_phi m) (log_mu m) bz = Inr ll \<and>
         compute_loglik nbinomln dat lphi_p (log_mu m) bz = Inr llp \<and>
         length (log_phi m') = length (log_phi m) \<and>
         (\<forall>f<length (log_phi m).
            length (ll ! f) = length (fst (snd dat)) \<and>
            length (llp ! f) = length (fst (snd dat)) \<and>
            (\<forall>s<length (fst (snd dat)).
               ll ! f ! s =
                 nbinomln (fst dat ! f ! s) (1 / exp (log_phi m ! f))
                   (1 / exp (log_phi m ! f) /
                      (1 / exp (log_phi m ! f)
                       + fst (snd dat) ! s
                         * exp (log_mu m ! f
                                + bcast (length (fst (snd dat))) (bet_rep ! f) ! s))) \<and>
               llp ! f ! s =
                 nbinomln (fst dat ! f ! s) (1 / exp (lphi_p ! f))
                   (1 / exp (lphi_p ! f) /
                      (1 / exp (lphi_p ! f)
                       + fst (snd dat) ! s
                         * exp (log_mu m ! f
                                + bcast (length (fst (snd dat))) (bet_rep ! f) ! s)))) \<and>
            log_phi m' ! f =
              (if accept (us ! f) (fsum (llp ! f)) (fsum (ll ! f)) then lphi_p ! f
               else log_phi m ! f)) \<and>
         log_mu m' = log_mu m \<and> beta m' = beta m \<and> z m' = z m"
proof -
  from update_phi_feature[OF assms] obtain bz ll llp where
    s: "getitems2 (beta m) (transpose (z m)) = Inr bz"
      "compute_loglik nbinomln dat (log_phi m) (log_mu m) bz = Inr ll"
      "compute_loglik nbinomln dat lphi_p (log_mu m) bz = Inr llp"
      "length (log_phi m') = length (log_phi m)"
      "\<forall>f<length (log_phi m).
            log_phi m' ! f =
              (if accept (us ! f) (fsum (llp ! f)) (fsum (ll ! f)) then lphi_p ! f
               else log_phi m ! f)"
      "log_mu m' = log_mu m" "beta m' = beta m" "z m' = z m" by blast
  have d: "dat = (fst dat, fst (snd dat), snd (snd dat))" by simp
  from compute_loglik_nth[of nbinomln "fst dat" "fst (snd dat)" "snd (snd dat)"
      "log_phi m" "log_mu m" bz ll] s(2)
  obtain bet_rep where
    a: "mapM (np_repeat (snd (snd dat))) bz = Inr bet_rep"
      "length (log_phi m) = length (fst dat)"
      "\<forall>f<length (fst dat). length (ll ! f) = length (fst (snd dat)) \<and>
        (\<forall>s<length (fst (snd dat)).
           ll ! f ! s =
             nbinomln (fst dat ! f ! s) (1 / exp (log_phi m ! f))
               (1 / exp (log_phi m ! f) /
                  (1 / exp (log_phi m ! f)
                   + fst (snd dat) ! s
                     * exp (log_mu m ! f
                            + bcast (length (fst (snd dat))) (bet_rep ! f) ! s))))"
    by auto
  from compute_loglik_nth[of nbinomln "fst dat" "fst (snd dat)" "snd (snd dat)"
      lphi_p "log_mu m" bz llp] s(3) a(1)
  have b: "\<forall>f<length (fst dat). length (llp ! f) = length (fst (snd dat)) \<and>
        (\<forall>s<length (fst (snd dat)).
           llp ! f ! s =
             nbinomln (fst dat ! f ! s) (1 / exp (lphi_p ! f))
               (1 / exp (lphi_p ! f) /
                  (1 / exp (lphi_p ! f)
                   + fst (snd dat) ! s
                     * exp (log_mu m ! f
                            + bcast (length (fst (snd dat))) (bet_rep ! f) ! s))))"
    by auto
  show ?thesis
    using s a b by (intro exI[of _ bz] exI[of _ bet_rep] exI[of _ ll] exI[of _ llp]) simp
qed

lemma update_mu_rows:
  assumes "update_mu nbinomln dat lmu_p us m = Inr m'"
  shows "\<exists>bz bet_rep ll llp.
         getitems2 (beta m) (transpose (z m)) = Inr bz \<and>
         mapM (np_repeat (snd (snd dat))) bz = Inr bet_rep \<and>
         compute_loglik nbinomln dat (log_phi m) (log_mu m) bz = Inr ll \<and>
         compute_loglik nbinomln dat (log_phi m) lmu_p bz = Inr llp \<and>
         length (log_mu m') = length (log_mu m) \<and>
         (\<forall>f<length (log_mu m).
            length (ll ! f) = length (fst (snd dat)) \<and>
            length (llp ! f) = length (fst (snd dat)) \<and>
            (\<forall>s<length (fst (snd dat)).
               ll ! f ! s =
                 nbinomln (fst dat ! f ! s) (1 / exp (log_phi m ! f))
                   (1 / exp (log_phi m ! f) /
                      (1 / exp (log_phi m ! f)
                       + fst (snd dat) ! s
                         * exp (log_mu m ! f
                                + bcast (length (fst (snd dat))) (bet_rep ! f) ! s))) \<and>
               llp ! f ! s =
                 nbinomln (fst dat ! f ! s) (1 / exp (log_phi m ! f))
                   (1 / exp (log_phi m ! f) /
                      (1 / exp (log_phi m ! f)
                       + fst (snd dat) ! s
                         * exp (lmu_p ! f
                                + bcast (length (fst (snd dat))) (bet_rep ! f) ! s)))) \<and>
            log_mu m' ! f =
              (if accept (us ! f) (fsum (llp ! f)) (fsum (ll ! f)) then lmu_p ! f
               else log_mu m ! f)) \<and>
         log_phi m' = log_phi m \<and> beta m' = beta m \<and> z m' = z m"
proof -
  from update_mu_feature[OF assms] obtain bz ll llp where
    s: "getitems2 (beta m) (transpose (z m)) = Inr bz"
      "compute_loglik nbinomln dat (log_phi m) (log_mu m) bz = Inr ll"
      "compute_loglik nbinomln dat (log_phi m) lmu_p bz = Inr llp"
      "length (log_mu m') = length (log_mu m)"
      "\<forall>f<length (log_mu m).
            log_mu m' ! f =
              (if accept (us ! f) (fsum (llp ! f)) (fsum (ll ! f)) then lmu_p ! f
               else log_mu m ! f)"
      "log_phi m' = log_phi m" "beta m' = beta m" "z m' = z m" by blast
  from compute_loglik_nth[of nbinomln "fst dat" "fst (snd dat)" "snd (snd dat)"
      "log_phi m" "log_mu m" bz ll] s(2)
  obtain bet_rep where
    a: "mapM (np_repeat (snd (snd dat))) bz = Inr bet_rep"
      "length (log_mu m) = length (fst dat)"
      "\<forall>f<length (fst dat). length (ll ! f) = length (fst (snd dat)) \<and>
        (\<forall>s<length (fst (snd dat)).
           ll ! f ! s =
             nbinomln (fst dat ! f ! s) (1 / exp (log_phi m ! f))
               (1 / exp (log_phi m ! f) /
                  (1 / exp (log_phi m ! f)
                   + fst (snd dat) ! s
                     * exp (log_mu m ! f
                            + bcast (length (fst (snd dat))) (bet_rep ! f) ! s))))"
    by auto
  from compute_loglik_nth[of nbinomln "fst dat" "fst (snd dat)" "snd (snd dat)"
      "log_phi m" lmu_p bz llp] s(3) a(1)
  have b: "\<forall>f<length (fst dat). length (llp ! f) = length (fst (snd dat)) \<and>
        (\<forall>s<length (fst (snd dat)).
           llp ! f ! s =
             nbinomln (fst dat ! f ! s) (1 / exp (log_phi m ! f))
               (1 / exp (log_phi m ! f) /
                  (1 / exp (log_phi m ! f)
                   + fst (snd dat) ! s
                     * exp (lmu_p ! f
                            + bcast (length (fst (snd dat))) (bet_rep ! f) ! s))))"
    by auto
  show ?thesis
    using s a b by (intro exI[of _ bz] exI[of _ bet_rep] exI[of _ ll] exI[of _ llp]) simp
qed

lemma update_phi_hyper:
  assumes "update_phi nb dat p us m = Inr m'"
  shows "mu1 m' = mu1 m" "tau1 m' = tau1 m" "mu2 m' = mu2 m" "tau2 m' = tau2 m"
  using assms by (auto simp: update_phi_def rbind_Inr)

lemma update_beta_logs:
  assumes "update_beta nb dat bn us m = Inr m'"
  shows "log_phi m' = log_phi m" "log_mu m' = log_mu m"
  using assms
  by (auto simp: update_beta_def rbind_Inr Let_def split: prod.splits if_splits)

lemma update_hpars_logs:
  assumes "update_hpars dr m = Inr m'"
  shows "log_phi m' = log_phi m" "log_mu m' = log_mu m"
  using assms by (auto simp: update_hpars_def rbind_Inr Let_def)

lemma finish_sweep_logs:
  assumes "finish_sweep dr rs m = Inr m'"
  shows "log_phi m' = log_phi m" "log_mu m' = log_mu m"
proof -
  from assms obtain m5 where
    hp: "update_hpars dr m5 = Inr m'" and e: "log_phi m5 = log_phi m" "log_mu m5 = log_mu m"
    by (auto simp: finish_sweep_def rbind_Inr Let_def split: if_splits)
  show "log_phi m' = log_phi m" "log_mu m' = log_mu m"
    using update_hpars_logs[OF hp] e by simp_all
qed

lemma sweep_proposals:
  assumes "update nbinomln dat dr m = Inr m'"
  shows "\<exists>m2 m3.
     update_phi nbinomln dat (rn_normal_phi dr (mu1 m) (1 / sqrt (tau1 m)) (nfeatures m))
       (u_phi dr) (m\<lparr>iter := iter m + 1\<rparr>) = Inr m2 \<and>
     update_mu nbinomln dat (rn_normal_mu dr (mu2 m) (1 / sqrt (tau2 m)) (nfeatures m))
       (u_mu dr) m2 = Inr m3 \<and>
     log_phi m' = log_phi m2 \<and> log_mu m' = log_mu m3"
proof -
  from update_Inr[OF assms] obtain m2 m3 m4 rs where
    p: "update_phi nbinomln dat (propose_log_phi dr (m\<lparr>iter := iter m + 1\<rparr>)) (u_phi dr)
          (m\<lparr>iter := iter m + 1\<rparr>) = Inr m2"
    and q: "update_mu nbinomln dat (propose_log_mu dr m2) (u_mu dr) m2 = Inr m3"
    and b: "update_beta nbinomln dat (propose_beta dr m3) (u_beta dr) m3 = Inr m4"
    and f: "finish_sweep dr rs m4 = Inr m'" by blast
  have h: "mu2 m2 = mu2 m" "tau2 m2 = tau2 m" "nfeatures m2 = nfeatures m"
    using update_phi_hyper[OF p] update_phi_same(13)[OF p] by simp_all
  have l: "log_phi m' = log_phi m2" "log_mu m' = log_mu m3"
    using finish_sweep_logs[OF f] update_beta_logs[OF b] update_mu_same(9)[OF q] by simp_all
  show ?thesis
    using p q l by (intro exI[of _ m2] exI[of _ m3]) (simp add: propose_log_phi_def
        propose_log_mu_def h)
qed

lemma ex2_loglik_phi:
  "getitems2 (beta ex2_m0) (transpose (z ex2_m0)) = Inr [[0, 1], [0, 1], [0, 3]]"
  "compute_loglik ex2_nb ex2_data (log_phi ex2_m0) (log_mu ex2_m0) [[0, 1], [0, 1], [0, 3]]
     = Inr [[Finite (- 3), Finite (- 1)], [Finite (- 1), Finite (- 2)],
            [Finite (- 1), Finite (- 2)]]"
  "compute_loglik ex2_nb ex2_data [1, 1, 1] (log_mu ex2_m0) [[0, 1], [0, 1], [0, 3]]
     = Inr [[Finite 0, Finite (- 3)], [Finite (- 2), Finite (- 2)],
            [Finite (- 2), Finite (- 2)]]"
  by (simp_all add: ex2_m0_def ex2_nb_def ex2_data_def ex_simps half_iff)

lemma ex2_loglik_mu:
  "getitems2 (beta ex2_m2) (transpose (z ex2_m2)) = Inr [[0, 1], [0, 1], [0, 3]]"
  "compute_loglik ex2_nb ex2_data (log_phi ex2_m2) (log_mu ex2_m2) [[0, 1], [0, 1], [0, 3]]
     = Inr [[Finite 0, Finite (- 3)], [Finite (- 1), Finite (- 2)],
            [Finite (- 2), Finite (- 2)]]"
  "compute_loglik ex2_nb ex2_data (log_phi ex2_m2) [1, 1, 1] [[0, 1], [0, 1], [0, 3]]
     = Inr [[Finite 0, Finite (- 3)], [Finite (- 2), Finite (- 2)],
            [Finite (- 2), Finite (- 2)]]"
  by (simp_all add: ex2_m0_def ex2_m2_def ex2_nb_def ex2_data_def ex_simps half_iff)

lemma ex2_logs_values:
  "log_phi ex2_m0 = [0, 0, 0]" "log_mu ex2_m0 = [0, 0, 0]"
  "log_phi ex2_m2 = [1, 0, 1]" "log_mu ex2_m2 = [0, 0, 0]"
  "log_phi ex2_m3 = [1, 0, 1]" "log_mu ex2_m3 = [1, 0, 1]"
  "log_phi ex2_m1 = [1, 0, 1]" "log_mu ex2_m1 = [1, 0, 1]"
  by (simp_all add: ex2_m0_def ex2_m2_def ex2_m3_def ex2_m1_def)

lemma ex2_draws:
  "rn_normal_phi ex2_dr (mu1 ex2_m0) (1 / sqrt (tau1 ex2_m0)) (nfeatures ex2_m0) = [1, 1, 1]"
  "rn_normal_mu ex2_dr (mu2 ex2_m0) (1 / sqrt (tau2 ex2_m0)) (nfeatures ex2_m0) = [1, 1, 1]"
  "rn_normal_phi ex2_dr (mu1 ex2_m0) (1 / sqrt (tau1 ex2_m0)) 2 = [0, 0]"
  "u_phi ex2_dr = [9 / 10, 1 / 2, 1 / 10]" "u_mu ex2_dr = [1 / 2, 1 / 2, 1 / 2]"
  by (simp_all add: ex2_dr_def ex2_m0_def numeral_2_eq_2 numeral_3_eq_3)

section \<open>The claims\<close>

text \<open>
  C1. In every reachable state (after the constructor and after every completed
  sweep), for every group \<open>g\<close> and feature \<open>f\<close> the entry \<open>z[g][f]\<close> is the snapped
  composition of the indicators: with \<open>k = c[g][d[g][f]]\<close> (both lookups in range),
  \<open>z[g][f] = k\<close> when \<open>|beta[k]| \<ge> thr\<close> and \<open>z[g][f] = 0\<close> otherwise.
\<close>

theorem combined_cluster_is_snapped_composition:
  assumes "reachable m" and "g < ngroups m" and "f < nfeatures m"
  shows "length (z m) = ngroups m \<and> length (z m ! g) = nfeatures m \<and>
         d m ! g ! f < length (c m ! g) \<and>
         c m ! g ! (d m ! g ! f) < length (beta m) \<and>
         (thr m \<le> \<bar>beta m ! (c m ! g ! (d m ! g ! f))\<bar> \<longrightarrow>
            z m ! g ! f = c m ! g ! (d m ! g ! f)) \<and>
         (\<not> thr m \<le> \<bar>beta m ! (c m ! g ! (d m ! g ! f))\<bar> \<longrightarrow> z m ! g ! f = 0)"
proof -
  have w: "wf m" using assms(1) by (rule reachable_wf)
  have "length (z m) = ngroups m" using w by (simp add: wf_def)
  moreover have "length (z m ! g) = nfeatures m \<and>
      d m ! g ! f < length (c m ! g) \<and> c m ! g ! (d m ! g ! f) < length (beta m) \<and>
      z m ! g ! f = (if \<bar>beta m ! (c m ! g ! (d m ! g ! f))\<bar> < thr m then 0
                     else c m ! g ! (d m ! g ! f))"
    using w assms(2,3) unfolding wf_def by blast
  ultimately show ?thesis by auto
qed

theorem combined_cluster_is_snapped_composition_witness:
  "reachable ex_m1 \<and> (1::nat) < ngroups ex_m1 \<and> (1::nat) < nfeatures ex_m1 \<and>
   c ex_m1 ! 1 ! (d ex_m1 ! 1 ! 1) = 1 \<and> thr ex_m1 \<le> \<bar>beta ex_m1 ! 1\<bar> \<and>
   z ex_m1 ! 1 ! 1 = 1 \<and>
   c ex_m1 ! 1 ! (d ex_m1 ! 1 ! 0) = 0 \<and> \<not> thr ex_m1 \<le> \<bar>beta ex_m1 ! 0\<bar> \<and>
   z ex_m1 ! 1 ! 0 = 0"
proof -
  have h: "(1::nat) < ngroups ex_m1" "(1::nat) < nfeatures ex_m1" "(0::nat) < nfeatures ex_m1"
    by (simp_all add: ex_m1_def)
  show ?thesis
    using ex_reach1 h
      combined_cluster_is_snapped_composition[OF ex_reach1 h(1) h(2)]
      combined_cluster_is_snapped_composition[OF ex_reach1 h(1) h(3)]
    by (simp add: ex_m1_def)
qed

text \<open>
  C3. In every reachable state the reference group is null: there is a group 0, and
  the rows \<open>d[0, :]\<close>, \<open>c[0, :]\<close> and \<open>z[0, :]\<close> hold zeros only (\<open>d[0, :]\<close> and \<open>z[0, :]\<close>
  with one entry per feature).
\<close>

theorem reference_group_stays_null:
  assumes "reachable m"
  shows "0 < ngroups m \<and> length (c m) = ngroups m \<and> length (d m) = ngroups m \<and>
         length (z m) = ngroups m \<and>
         d m ! 0 = replicate (nfeatures m) 0 \<and>
         c m ! 0 = replicate (length (c m ! 0)) 0 \<and>
         z m ! 0 = replicate (nfeatures m) 0"
proof -
  have w: "wf m" using assms by (rule reachable_wf)
  have pos: "0 < ngroups m" using w by (simp add: wf_def)
  have l: "length (d m ! 0) = nfeatures m" "length (z m ! 0) = nfeatures m"
    using w pos unfolding wf_def by blast+
  have zero: "\<forall>x\<in>set (c m ! 0). x = 0" "\<forall>x\<in>set (d m ! 0). x = 0" "\<forall>x\<in>set (z m ! 0). x = 0"
    using w by (simp_all add: wf_def)
  have "d m ! 0 = replicate (length (d m ! 0)) 0" "c m ! 0 = replicate (length (c m ! 0)) 0"
    "z m ! 0 = replicate (length (z m ! 0)) 0"
    using zero by (simp_all add: replicate_length_same)
  then show ?thesis using w pos l by (simp add: wf_def)
qed

theorem reference_group_stays_null_witness:
  "reachable ex_m1 \<and> d ex_m1 ! 0 = [0, 0] \<and> c ex_m1 ! 0 = [0, 0] \<and> z ex_m1 ! 0 = [0, 0]"
  using ex_reach1 reference_group_stays_null[OF ex_reach1]
  by (simp add: ex_m1_def)

text \<open>
  C6. \<open>beta[0] = 0\<close> in every reachable state, and in the state \<^verbatim>\<open>_update_beta\<close>
  returns within the next sweep (whatever \<^verbatim>\<open>_update_phi\<close> and \<^verbatim>\<open>_update_mu\<close> made of
  \<open>log_phi\<close> and \<open>log_mu\<close>): the proposal is \<open>0\<close> followed by the normal draws, so
  its entry 0 is 0, and neither the Metropolis acceptance nor the forced resampling
  of the inactive clusters can give \<open>beta[0]\<close> another value.
\<close>

theorem cluster_effect_zero_is_null:
  assumes "reachable m"
  shows "beta m \<noteq> [] \<and> beta m ! 0 = 0 \<and>
         (\<forall>nbinomln dat bnorm us lp lm m'.
            update_beta nbinomln dat bnorm us (m\<lparr>iter := iter m + 1, log_phi := lp, log_mu := lm\<rparr>)
              = Inr m' \<longrightarrow>
            (0 # bnorm) ! 0 = 0 \<and> beta m' \<noteq> [] \<and> beta m' ! 0 = 0)"
proof -
  have w: "wf m" using assms by (rule reachable_wf)
  then have b: "beta m \<noteq> []" "beta m ! 0 = 0" by (simp_all add: wf_def)
  { fix nbinomln dat bnorm us lp lm m'
    assume u: "update_beta nbinomln dat bnorm us
        (m\<lparr>iter := iter m + 1, log_phi := lp, log_mu := lm\<rparr>) = Inr m'"
    have "beta (m\<lparr>iter := iter m + 1, log_phi := lp, log_mu := lm\<rparr>) ! 0 = 0" using b by simp
    from update_beta_zero[OF u this] have "beta m' \<noteq> []" "beta m' ! 0 = 0" by simp_all
  }
  then show ?thesis using b by simp
qed

theorem cluster_effect_zero_is_null_witness:
  "reachable ex_m0 \<and> beta ex_m0 ! 0 = 0 \<and>
   update_beta ex_nb ex_data (propose_beta ex_dr ex_m3) (u_beta ex_dr) ex_m3 = Inr ex_m4 \<and>
   beta ex_m4 ! 0 = 0"
proof -
  have e: "ex_m3 = ex_m0\<lparr>iter := iter ex_m0 + 1, log_phi := [1, 0], log_mu := [1, 0]\<rparr>"
    by (simp add: ex_m3_def ex_m0_def)
  have u: "update_beta ex_nb ex_data (propose_beta ex_dr ex_m3) (u_beta ex_dr)
      (ex_m0\<lparr>iter := iter ex_m0 + 1, log_phi := [1, 0], log_mu := [1, 0]\<rparr>) = Inr ex_m4"
    using ex_beta unfolding e .
  note t = cluster_effect_zero_is_null[OF ex_reach0]
  from t have a: "beta ex_m0 ! 0 = 0" by blast
  from t u have b: "beta ex_m4 ! 0 = 0" by blast
  show ?thesis using ex_reach0 ex_beta a b by simp
qed

text \<open>
  C4 (amended). The occupancy statistics written at the end of a sweep count the
  groups from 1 on, not all groups: \<open>occ\<close> is \<^verbatim>\<open>np.bincount(z[1:].ravel(), minlength=K)\<close>,
  so \<open>occ[k]\<close> is the number of (group, feature) pairs with \<open>group \<ge> 1\<close> and
  \<open>z = k\<close>. Counted over all groups there are as many pairs for \<open>k \<ge> 1\<close>, and
  \<open>nfeatures\<close> more for \<open>k = 0\<close> (the cells of the reference group).
  \<open>iact[k] = (occ[k] > 0)\<close> and \<open>nact\<close> is the number of true entries of \<open>iact\<close>.
\<close>

theorem occupancy_counts_nonreference_groups:
  assumes "reachable m" and "update nbinomln dat dr m = Inr m'"
  shows "occ m' = bincount (concat (tl (z m'))) (length (lw m')) \<and>
         length (lw m') \<le> length (occ m') \<and>
         (\<forall>k<length (occ m').
            occ m' ! k = count_list (concat (tl (z m'))) k \<and>
            count_list (concat (z m')) k = occ m' ! k + (if k = 0 then nfeatures m' else 0)) \<and>
         iact m' = map (\<lambda>n. 0 < n) (occ m') \<and>
         nact m' = count_true (iact m')"
proof -
  have r: "reachable m'" using assms by (rule reach_update)
  then have w: "wf m'" by (rule reachable_wf)
  from update_Inr[OF assms(2)] obtain rs m4 where f: "finish_sweep dr rs m4 = Inr m'" by blast
  have na: "nact m' = count_true (iact m')" using finish_sweep_Inr[OF f] by blast
  have o: "occ m' = bincount (concat (tl (z m'))) (length (lw m'))"
    and i: "iact m' = map (\<lambda>n. 0 < n) (occ m')" using w by (simp_all add: wf_def)
  have l: "length (lw m') \<le> length (occ m')" using o bincount_length by metis
  have zne: "z m' \<noteq> []" using w by (auto simp: wf_def)
  have z0: "z m' ! 0 = replicate (nfeatures m') 0"
  proof -
    have "\<forall>x\<in>set (z m' ! 0). x = 0" "length (z m' ! 0) = nfeatures m'"
      using w unfolding wf_def by blast+
    then show ?thesis by (metis replicate_length_same)
  qed
  have cnt: "count_list (concat (z m')) k =
      count_list (concat (tl (z m'))) k + (if k = 0 then nfeatures m' else 0)" for k
    by (subst concat_hd_tl[OF zne]) (simp add: z0 count_list_replicate)
  have "occ m' ! k = count_list (concat (tl (z m'))) k" if "k < length (occ m')" for k
    using that o bincount_nth by metis
  then show ?thesis using o l i na cnt by simp
qed

text \<open>
  C4 as stated fails: after the sweep of the small run, \<open>occ[0]\<close> is 1, and 3 cells
  of \<open>z\<close> over all groups hold 0.
\<close>

theorem occupancy_counts_all_groups_counterexample:
  "update ex_nb ex_data ex_dr ex_m0 = Inr ex_m1 \<and> occ ex_m1 ! 0 = 1 \<and>
   count_list (concat (z ex_m1)) 0 = 3"
  using ex_update by (simp add: ex_m1_def)

theorem occupancy_counts_nonreference_groups_witness:
  "reachable ex_m0 \<and> update ex_nb ex_data ex_dr ex_m0 = Inr ex_m1 \<and>
   occ ex_m1 = [1, 1, 0] \<and> count_list (concat (tl (z ex_m1))) 0 = 1 \<and>
   iact ex_m1 = [True, True, False] \<and> nact ex_m1 = 2"
  using ex_reach0 ex_update occupancy_counts_nonreference_groups[OF ex_reach0 ex_update]
  by (simp add: ex_m1_def)



text \<open>
  C8. \<^verbatim>\<open>_update_hpars\<close> returns (it raises only when an entry of \<open>z\<close> is no index of
  \<open>beta\<close>, whatever the number of active effects). With \<open>bs\<close> the entries of
  \<^verbatim>\<open>beta[z]\<close> at the cells with \<open>z > 0\<close>: when \<open>bs\<close> has fewer than 3 entries, \<open>m0\<close>
  and \<open>t0\<close> are left as they are; when it has 3 or more, they are what
  \<^verbatim>\<open>st.sample_normal_mean_prec_jeffreys\<close> returns for the sum, the sum of squares and
  the number of the entries of \<open>bs\<close>. \<open>(mu1, tau1)\<close> and \<open>(mu2, tau2)\<close> are redrawn
  from \<open>log_phi\<close> and \<open>log_mu\<close> in every case.
\<close>

theorem effect_hyperparameters_skipped_below_three:
  assumes "list_all (list_all (\<lambda>k. k < length (beta m))) (z m)"
  shows "\<exists>m'. update_hpars dr m = Inr m' \<and>
     (let bs = map (\<lambda>k. beta m ! k) (filter (\<lambda>k. 0 < k) (concat (z m))) in
        (length bs < 3 \<longrightarrow> m0 m' = m0 m \<and> t0 m' = t0 m) \<and>
        (3 \<le> length bs \<longrightarrow>
           (m0 m', t0 m') =
             jeffreys_beta dr (sum_list bs) (sum_list (map (\<lambda>x. x ^ 2) bs)) (length bs)) \<and>
        (mu1 m', tau1 m') =
          jeffreys_phi dr (sum_list (log_phi m)) (sum_list (map (\<lambda>x. x ^ 2) (log_phi m)))
            (length (log_phi m)) \<and>
        (mu2 m', tau2 m') =
          jeffreys_mu dr (sum_list (log_mu m)) (sum_list (map (\<lambda>x. x ^ 2) (log_mu m)))
            (length (log_mu m)))"
proof -
  have g: "getitems2 (beta m) (z m) = Inr (map (map (\<lambda>i. beta m ! i)) (z m))"
    using assms by (auto simp: getitems2_Inr list_all_iff)
  show ?thesis
    unfolding update_hpars_eval[OF g] active_effects_eq
    by (auto simp: Let_def)
qed

theorem effect_hyperparameters_skipped_below_three_witness:
  "list_all (list_all (\<lambda>k. k < length (beta ex_m1))) (z ex_m1) \<and>
   length (filter (\<lambda>k. 0 < k) (concat (z ex_m1))) = 1 \<and>
   update_hpars ex_dr ex_m1 = Inr ex_m1 \<and>
   list_all (list_all (\<lambda>k. k < length (beta ex_mh))) (z ex_mh) \<and>
   length (filter (\<lambda>k. 0 < k) (concat (z ex_mh))) = 3 \<and>
   update_hpars ex_dr ex_mh = Inr (ex_mh\<lparr>m0 := 5 / 3, t0 := 1\<rparr>) \<and>
   jeffreys_beta ex_dr (1 + 3 + 1) (1 + 9 + 1) 3 = (5 / 3, 1)"
proof -
  have h1: "list_all (list_all (\<lambda>k. k < length (beta ex_m1))) (z ex_m1)"
    by (simp add: ex_m1_def)
  have h3: "list_all (list_all (\<lambda>k. k < length (beta ex_mh))) (z ex_mh)"
    by (simp add: ex_mh_def ex_m1_def)
  note t1 = effect_hyperparameters_skipped_below_three[OF h1, of ex_dr]
  note t3 = effect_hyperparameters_skipped_below_three[OF h3, of ex_dr]
  have n1: "length (filter (\<lambda>k. 0 < k) (concat (z ex_m1))) = 1" by (simp add: ex_m1_def)
  have n3: "length (filter (\<lambda>k. 0 < k) (concat (z ex_mh))) = 3"
    by (simp add: ex_mh_def ex_m1_def)
  have j: "jeffreys_beta ex_dr (1 + 3 + 1) (1 + 9 + 1) 3 = (5 / 3, 1)" by (simp add: ex_dr_def)
  from t1 t3 show ?thesis using h1 h3 n1 n3 ex_hpars1 ex_hpars3 j by simp
qed

text \<open>
  C10. In a sweep, the effect hyper-parameters are updated from \<open>bs\<close>, the entries of
  \<^verbatim>\<open>beta[z]\<close> at the cells with \<open>z > 0\<close> of the state the sweep returns (\<open>z\<close> after the
  snap, \<open>beta\<close> after \<^verbatim>\<open>_update_beta\<close>), and \<open>m0\<close>, \<open>t0\<close> keep the values they had
  before the sweep when \<open>bs\<close> has at most 2 entries. Every cluster \<open>k \<ge> 1\<close>
  contributes \<open>beta[k]\<close> once per cell assigned to it: the sum, the sum of squares and
  the number of entries of \<open>bs\<close> are the sums over \<open>k \<ge> 1\<close> weighted by the number
  of cells with \<open>z = k\<close>. Every entry of \<open>bs\<close> has magnitude at least \<open>thr\<close>.
\<close>

theorem effect_statistics_weighted_by_occupancy:
  assumes "update nbinomln dat dr m = Inr m'"
  shows "list_all (list_all (\<lambda>k. k < length (beta m'))) (z m') \<and>
     (let bs = map (\<lambda>k. beta m' ! k) (filter (\<lambda>k. 0 < k) (concat (z m'))) in
        (m0 m', t0 m') =
          (if 2 < length bs
           then jeffreys_beta dr (sum_list bs) (sum_list (map (\<lambda>x. x ^ 2) bs)) (length bs)
           else (m0 m, t0 m)) \<and>
        (\<forall>b\<in>set bs. thr m' \<le> \<bar>b\<bar>) \<and>
        sum_list bs =
          (\<Sum>k = 1..<length (beta m'). real (count_list (concat (z m')) k) * beta m' ! k) \<and>
        sum_list (map (\<lambda>x. x ^ 2) bs) =
          (\<Sum>k = 1..<length (beta m'). real (count_list (concat (z m')) k) * (beta m' ! k) ^ 2) \<and>
        length bs = (\<Sum>k = 1..<length (beta m'). count_list (concat (z m')) k))"
proof -
  from update_Inr[OF assms] obtain m2 m3 m4 rs where
    p: "update_phi nbinomln dat (propose_log_phi dr (m\<lparr>iter := iter m + 1\<rparr>)) (u_phi dr) (m\<lparr>iter := iter m + 1\<rparr>) = Inr m2"
    and q: "update_mu nbinomln dat (propose_log_mu dr m2) (u_mu dr) m2 = Inr m3"
    and b: "update_beta nbinomln dat (propose_beta dr m3) (u_beta dr) m3 = Inr m4"
    and f: "finish_sweep dr rs m4 = Inr m'" by blast
  have h4: "m0 m4 = m0 m" "t0 m4 = t0 m"
    using update_phi_same[OF p] update_mu_same[OF q] update_beta_same[OF b] by simp_all
  from finish_sweep_hpars[OF f] obtain m5 z1 where
    hp: "update_hpars dr m5 = Inr m'" and sn: "snap (beta m5) (thr m5) z1 = Inr (z m5)"
    and h5: "m0 m5 = m0 m" "t0 m5 = t0 m" using h4 by auto
  have e: "z m' = z m5" "beta m' = beta m5" "thr m' = thr m5"
    using update_hpars_same[OF hp] by simp_all
  have ent: "\<And>row k. row \<in> set (z m5) \<Longrightarrow> k \<in> set row \<Longrightarrow>
      k < length (beta m5) \<and> (0 < k \<longrightarrow> thr m5 \<le> \<bar>beta m5 ! k\<bar>)"
    using snap_entries[OF sn] by blast
  have rng: "list_all (list_all (\<lambda>k. k < length (beta m5))) (z m5)"
    using ent by (auto simp: list_all_iff)
  then have g: "getitems2 (beta m5) (z m5) = Inr (map (map (\<lambda>i. beta m5 ! i)) (z m5))"
    by (auto simp: getitems2_Inr list_all_iff)
  define bs where "bs = map (\<lambda>k. beta m5 ! k) (filter (\<lambda>k. 0 < k) (concat (z m5)))"
  have hm: "(m0 m', t0 m') =
      (if 2 < length bs
       then jeffreys_beta dr (sum_list bs) (sum_list (map (\<lambda>x. x ^ 2) bs)) (length bs)
       else (m0 m, t0 m))"
    using hp unfolding update_hpars_eval[OF g] active_effects_eq bs_def[symmetric]
    by (auto simp: h5)
  have big: "\<forall>b\<in>set bs. thr m5 \<le> \<bar>b\<bar>"
    using ent by (auto simp: bs_def)
  have all: "\<forall>x\<in>set (concat (z m5)). x < length (beta m5)" using ent by auto
  have s1: "sum_list bs =
      (\<Sum>k = 1..<length (beta m5). real (count_list (concat (z m5)) k) * beta m5 ! k)"
    unfolding bs_def using sum_list_by_cluster[OF all, of "\<lambda>k. beta m5 ! k"] by simp
  have s2: "sum_list (map (\<lambda>x. x ^ 2) bs) =
      (\<Sum>k = 1..<length (beta m5). real (count_list (concat (z m5)) k) * (beta m5 ! k) ^ 2)"
    unfolding bs_def using sum_list_by_cluster[OF all, of "\<lambda>k. (beta m5 ! k) ^ 2"]
    by (simp add: comp_def)
  have "sum_list (map (\<lambda>k. 1::nat) (filter (\<lambda>k. 0 < k) (concat (z m5)))) =
      (\<Sum>k = 1..<length (beta m5). count_list (concat (z m5)) k)"
    using sum_list_by_cluster[OF all, of "\<lambda>k. 1::nat"] by simp
  then have s3: "length bs = (\<Sum>k = 1..<length (beta m5). count_list (concat (z m5)) k)"
    by (simp add: bs_def sum_list_triv)
  show ?thesis
    unfolding e Let_def bs_def[symmetric]
    using rng hm big s1 s2 s3 by simp
qed

theorem effect_statistics_weighted_by_occupancy_witness:
  "update ex2_nb ex2_data ex2_dr ex2_m0 = Inr ex2_m1 \<and>
   z ex2_m1 = [[0, 0, 0], [2, 1, 2]] \<and> beta ex2_m1 = [0, 2, 4] \<and>
   map (\<lambda>k. beta ex2_m1 ! k) (filter (\<lambda>k. 0 < k) (concat (z ex2_m1))) = [4, 2, 4] \<and>
   (2::nat) < length [4, 2, 4 :: real] \<and>
   (m0 ex2_m1, t0 ex2_m1) = jeffreys_beta ex2_dr 10 36 3 \<and>
   (m0 ex2_m1, t0 ex2_m1) = (10 / 3, 1 / 12) \<and> (m0 ex2_m0, t0 ex2_m0) = (0, 1) \<and>
   thr ex2_m1 = 3 / 10 \<and> thr ex2_m1 \<le> \<bar>4\<bar> \<and> thr ex2_m1 \<le> \<bar>2\<bar> \<and>
   count_list (concat (z ex2_m1)) 1 = 1 \<and> count_list (concat (z ex2_m1)) 2 = 2 \<and>
   sum_list [4, 2, 4 :: real] = real 1 * 2 + real 2 * 4 \<and>
   sum_list (map (\<lambda>x. x ^ 2) [4, 2, 4 :: real]) = real 1 * 2 ^ 2 + real 2 * 4 ^ 2 \<and>
   length [4, 2, 4 :: real] = 1 + 2"
proof -
  note t = effect_statistics_weighted_by_occupancy[OF ex2_update]
  have zb: "z ex2_m1 = [[0, 0, 0], [2, 1, 2]]" "beta ex2_m1 = [0, 2, 4]"
    "thr ex2_m1 = 3 / 10" "(m0 ex2_m0, t0 ex2_m0) = (0, 1)"
    by (simp_all add: ex2_m1_def ex2_m0_def)
  have bs: "map (\<lambda>k. beta ex2_m1 ! k) (filter (\<lambda>k. 0 < k) (concat (z ex2_m1))) = [4, 2, 4]"
    by (simp add: zb)
  have cn: "count_list (concat (z ex2_m1)) 1 = 1" "count_list (concat (z ex2_m1)) 2 = 2"
    by (simp_all add: zb)
  have iv: "{1..<length (beta ex2_m1)} = {1, 2}" by (auto simp: zb)
  note u = t[THEN conjunct2, unfolded Let_def bs]
  have h: "(m0 ex2_m1, t0 ex2_m1) = jeffreys_beta ex2_dr 10 36 3"
    using u[THEN conjunct1] by (simp add: numeral_3_eq_3)
  have b: "thr ex2_m1 \<le> \<bar>4\<bar>" "thr ex2_m1 \<le> \<bar>2\<bar>"
    using u[THEN conjunct2, THEN conjunct1] by simp_all
  have s1: "sum_list [4, 2, 4 :: real] = real 1 * 2 + real 2 * 4"
    using u[THEN conjunct2, THEN conjunct2, THEN conjunct1] unfolding iv cn
    by (simp add: zb)
  have s2: "sum_list (map (\<lambda>x. x ^ 2) [4, 2, 4 :: real]) = real 1 * 2 ^ 2 + real 2 * 4 ^ 2"
    using u[THEN conjunct2, THEN conjunct2, THEN conjunct2, THEN conjunct1] unfolding iv cn
    by (simp add: zb)
  have s3: "length [4, 2, 4 :: real] = 1 + 2"
    using u[THEN conjunct2, THEN conjunct2, THEN conjunct2, THEN conjunct2] unfolding iv cn
    by simp
  have j: "jeffreys_beta ex2_dr 10 36 3 = (10 / 3, 1 / 12)" by (simp add: ex2_dr_def)
  show ?thesis using ex2_update zb bs h j b cn s1 s2 s3 by simp
qed

text \<open>
  C5. \<^verbatim>\<open>_update_phi\<close> replaces \<open>log_phi[f]\<close> by the proposal \<^verbatim>\<open>log_phi_[f]\<close> exactly when
  the Metropolis test of feature \<open>f\<close> holds, and leaves it as it is otherwise. The
  test compares the totals \<open>fsum (llp ! f)\<close> and \<open>fsum (ll ! f)\<close> of the rows of
  feature \<open>f\<close>: a row has one entry per sample (one per library size), entry \<open>s\<close>
  being \<^verbatim>\<open>nbinomln\<close> of the count of feature \<open>f\<close> in sample \<open>s\<close>; the two rows differ
  in \<open>log_phi\<close> only, \<open>log_mu\<close> and the effect \<^verbatim>\<open>beta[z.T]\<close> (repeated over the
  replicates) being the same in both, and \<open>log_mu\<close>, \<open>beta\<close> and \<open>z\<close> are not
  changed. \<^verbatim>\<open>_update_mu\<close> does the same with \<open>log_phi\<close> and \<open>log_mu\<close> exchanged. The
  total of a row is its sum: \<open>fsum\<close> is \<open>fadd\<close> over the row from \<open>Finite 0\<close>, and
  on a row of finite values the sum of the values. On finite totals \<open>a\<close> (proposal)
  and \<open>b\<close> (current) the test with the uniform draw \<open>u\<close> is \<open>a > b\<close> or
  \<open>u < exp (a - b)\<close>; when \<open>a \<le> b\<close> the draws of \<open>[0, 1)\<close> that accept are those
  of \<open>[0, exp (a - b))\<close>, an interval whose length is the likelihood ratio. In a
  sweep (from the state \<open>ms\<close> to the state \<open>me\<close>) the proposals are what the generator
  returns for the hyperprior: \<^verbatim>\<open>rn.normal\<close> with location \<open>mu1\<close>, scale
  \<open>1 / sqrt tau1\<close> and size \<open>nfeatures\<close> for \<open>log_phi\<close>, with \<open>mu2\<close> and
  \<open>1 / sqrt tau2\<close> for \<open>log_mu\<close>, the hyper-parameters being those of the state
  before the sweep; the sweep returns the \<open>log_phi\<close> and \<open>log_mu\<close> of these two
  updates. (The generator is an input of the model: the statement is about the
  arguments it is called with, not about the distribution of what it returns.)
\<close>

theorem metropolis_acceptance_per_feature:
  "(update_phi nbinomln dat lphi_p us m = Inr m' \<longrightarrow>
      (\<exists>bz bet_rep ll llp.
         getitems2 (beta m) (transpose (z m)) = Inr bz \<and>
         mapM (np_repeat (snd (snd dat))) bz = Inr bet_rep \<and>
         compute_loglik nbinomln dat (log_phi m) (log_mu m) bz = Inr ll \<and>
         compute_loglik nbinomln dat lphi_p (log_mu m) bz = Inr llp \<and>
         length (log_phi m') = length (log_phi m) \<and>
         (\<forall>f<length (log_phi m).
            length (ll ! f) = length (fst (snd dat)) \<and>
            length (llp ! f) = length (fst (snd dat)) \<and>
            (\<forall>s<length (fst (snd dat)).
               ll ! f ! s =
                 nbinomln (fst dat ! f ! s) (1 / exp (log_phi m ! f))
                   (1 / exp (log_phi m ! f) /
                      (1 / exp (log_phi m ! f)
                       + fst (snd dat) ! s
                         * exp (log_mu m ! f
                                + bcast (length (fst (snd dat))) (bet_rep ! f) ! s))) \<and>
               llp ! f ! s =
                 nbinomln (fst dat ! f ! s) (1 / exp (lphi_p ! f))
                   (1 / exp (lphi_p ! f) /
                      (1 / exp (lphi_p ! f)
                       + fst (snd dat) ! s
                         * exp (log_mu m ! f
                                + bcast (length (fst (snd dat))) (bet_rep ! f) ! s)))) \<and>
            log_phi m' ! f =
              (if accept (us ! f) (fsum (llp ! f)) (fsum (ll ! f)) then lphi_p ! f
               else log_phi m ! f)) \<and>
         log_mu m' = log_mu m \<and> beta m' = beta m \<and> z m' = z m)) \<and>
   (update_mu nbinomln dat lmu_p us m = Inr m' \<longrightarrow>
      (\<exists>bz bet_rep ll llp.
         getitems2 (beta m) (transpose (z m)) = Inr bz \<and>
         mapM (np_repeat (snd (snd dat))) bz = Inr bet_rep \<and>
         compute_loglik nbinomln dat (log_phi m) (log_mu m) bz = Inr ll \<and>
         compute_loglik nbinomln dat (log_phi m) lmu_p bz = Inr llp \<and>
         length (log_mu m') = length (log_mu m) \<and>
         (\<forall>f<length (log_mu m).
            length (ll ! f) = length (fst (snd dat)) \<and>
            length (llp ! f) = length (fst (snd dat)) \<and>
            (\<forall>s<length (fst (snd dat)).
               ll ! f ! s =
                 nbinomln (fst dat ! f ! s) (1 / exp (log_phi m ! f))
                   (1 / exp (log_phi m ! f) /
                      (1 / exp (log_phi m ! f)
                       + fst (snd dat) ! s
                         * exp (log_mu m ! f
                                + bcast (length (fst (snd dat))) (bet_rep ! f) ! s))) \<and>
               llp ! f ! s =
                 nbinomln (fst dat ! f ! s) (1 / exp (log_phi m ! f))
                   (1 / exp (log_phi m ! f) /
                      (1 / exp (log_phi m ! f)
                       + fst (snd dat) ! s
                         * exp (lmu_p ! f
                                + bcast (length (fst (snd dat))) (bet_rep ! f) ! s)))) \<and>
            log_mu m' ! f =
              (if accept (us ! f) (fsum (llp ! f)) (fsum (ll ! f)) then lmu_p ! f
               else log_mu m ! f)) \<and>
         log_phi m' = log_phi m \<and> beta m' = beta m \<and> z m' = z m)) \<and>
   fsum [] = Finite 0 \<and> (\<forall>x xs. fsum (x # xs) = fadd x (fsum xs)) \<and>
   (\<forall>xs. fsum (map Finite xs) = Finite (sum_list xs)) \<and>
   (\<forall>u a b. accept u (Finite a) (Finite b) = (b < a \<or> u < exp (a - b))) \<and>
   (\<forall>a b. a \<le> b \<longrightarrow>
      {u. 0 \<le> u \<and> u < 1 \<and> accept u (Finite a) (Finite b)} = {u. 0 \<le> u \<and> u < exp (a - b)}) \<and>
   (update nbinomln dat dr ms = Inr me \<longrightarrow>
      (\<exists>m2 m3.
         update_phi nbinomln dat (rn_normal_phi dr (mu1 ms) (1 / sqrt (tau1 ms)) (nfeatures ms))
           (u_phi dr) (ms\<lparr>iter := iter ms + 1\<rparr>) = Inr m2 \<and>
         update_mu nbinomln dat (rn_normal_mu dr (mu2 ms) (1 / sqrt (tau2 ms)) (nfeatures ms))
           (u_mu dr) m2 = Inr m3 \<and>
         log_phi me = log_phi m2 \<and> log_mu me = log_mu m3))"
proof (intro conjI impI allI)
  assume "update_phi nbinomln dat lphi_p us m = Inr m'"
  then show "\<exists>bz bet_rep ll llp.
         getitems2 (beta m) (transpose (z m)) = Inr bz \<and>
         mapM (np_repeat (snd (snd dat))) bz = Inr bet_rep \<and>
         compute_loglik nbinomln dat (log_phi m) (log_mu m) bz = Inr ll \<and>
         compute_loglik nbinomln dat lphi_p (log_mu m) bz = Inr llp \<and>
         length (log_phi m') = length (log_phi m) \<and>
         (\<forall>f<length (log_phi m).
            length (ll ! f) = length (fst (snd dat)) \<and>
            length (llp ! f) = length (fst (snd dat)) \<and>
            (\<forall>s<length (fst (snd dat)).
               ll ! f ! s =
                 nbinomln (fst dat ! f ! s) (1 / exp (log_phi m ! f))
                   (1 / exp (log_phi m ! f) /
                      (1 / exp (log_phi m ! f)
                       + fst (snd dat) ! s
                         * exp (log_mu m ! f
                                + bcast (length (fst (snd dat))) (bet_rep ! f) ! s))) \<and>
               llp ! f ! s =
                 nbinomln (fst dat ! f ! s) (1 / exp (lphi_p ! f))
                   (1 / exp (lphi_p ! f) /
                      (1 / exp (lphi_p ! f)
                       + fst (snd dat) ! s
                         * exp (log_mu m ! f
                                + bcast (length (fst (snd dat))) (bet_rep ! f) ! s)))) \<and>
            log_phi m' ! f =
              (if accept (us ! f) (fsum (llp ! f)) (fsum (ll ! f)) then lphi_p ! f
               else log_phi m ! f)) \<and>
         log_mu m' = log_mu m \<and> beta m' = beta m \<and> z m' = z m"
    by (rule update_phi_rows)
next
  assume "update_mu nbinomln dat lmu_p us m = Inr m'"
  then show "\<exists>bz bet_rep ll llp.
         getitems2 (beta m) (transpose (z m)) = Inr bz \<and>
         mapM (np_repeat (snd (snd dat))) bz = Inr bet_rep \<and>
         compute_loglik nbinomln dat (log_phi m) (log_mu m) bz = Inr ll \<and>
         compute_loglik nbinomln dat (log_phi m) lmu_p bz = Inr llp \<and>
         length (log_mu m') = length (log_mu m) \<and>
         (\<forall>f<length (log_mu m).
            length (ll ! f) = length (fst (snd dat)) \<and>
            length (llp ! f) = length (fst (snd dat)) \<and>
            (\<forall>s<length (fst (snd dat)).
               ll ! f ! s =
                 nbinomln (fst dat ! f ! s) (1 / exp (log_phi m ! f))
                   (1 / exp (log_phi m ! f) /
                      (1 / exp (log_phi m ! f)
                       + fst (snd dat) ! s
                         * exp (log_mu m ! f
                                + bcast (length (fst (snd dat))) (bet_rep ! f) ! s))) \<and>
               llp ! f ! s =
                 nbinomln (fst dat ! f ! s) (1 / exp (log_phi m ! f))
                   (1 / exp (log_phi m ! f) /
                      (1 / exp (log_phi m ! f)
                       + fst (snd dat) ! s
                         * exp (lmu_p ! f
                                + bcast (length (fst (snd dat))) (bet_rep ! f) ! s)))) \<and>
            log_mu m' ! f =
              (if accept (us ! f) (fsum (llp ! f)) (fsum (ll ! f)) then lmu_p ! f
               else log_mu m ! f)) \<and>
         log_phi m' = log_phi m \<and> beta m' = beta m \<and> z m' = z m"
    by (rule update_mu_rows)
next
  show "fsum [] = Finite 0" by (rule fsum_simps)
next
  fix x xs show "fsum (x # xs) = fadd x (fsum xs)" by (rule fsum_simps)
next
  fix xs show "fsum (map Finite xs) = Finite (sum_list xs)" by (rule fsum_finite)
next
  fix u a b show "accept u (Finite a) (Finite b) = (b < a \<or> u < exp (a - b))"
    by (rule accept_finite)
next
  fix a b :: real assume "a \<le> b"
  then show "{u. 0 \<le> u \<and> u < 1 \<and> accept u (Finite a) (Finite b)} = {u. 0 \<le> u \<and> u < exp (a - b)}"
    by (rule accept_interval)
next
  assume "update nbinomln dat dr ms = Inr me"
  then show "\<exists>m2 m3.
         update_phi nbinomln dat (rn_normal_phi dr (mu1 ms) (1 / sqrt (tau1 ms)) (nfeatures ms))
           (u_phi dr) (ms\<lparr>iter := iter ms + 1\<rparr>) = Inr m2 \<and>
         update_mu nbinomln dat (rn_normal_mu dr (mu2 ms) (1 / sqrt (tau2 ms)) (nfeatures ms))
           (u_mu dr) m2 = Inr m3 \<and>
         log_phi me = log_phi m2 \<and> log_mu me = log_mu m3"
    by (rule sweep_proposals)
qed

theorem metropolis_acceptance_per_feature_witness:
  "update ex2_nb ex2_data ex2_dr ex2_m0 = Inr ex2_m1 \<and>
   rn_normal_phi ex2_dr (mu1 ex2_m0) (1 / sqrt (tau1 ex2_m0)) (nfeatures ex2_m0) = [1, 1, 1] \<and>
   rn_normal_mu ex2_dr (mu2 ex2_m0) (1 / sqrt (tau2 ex2_m0)) (nfeatures ex2_m0) = [1, 1, 1] \<and>
   update_phi ex2_nb ex2_data [1, 1, 1] (u_phi ex2_dr) (ex2_m0\<lparr>iter := iter ex2_m0 + 1\<rparr>)
     = Inr ex2_m2 \<and>
   update_mu ex2_nb ex2_data [1, 1, 1] (u_mu ex2_dr) ex2_m2 = Inr ex2_m3 \<and>
   compute_loglik ex2_nb ex2_data (log_phi ex2_m0) (log_mu ex2_m0) [[0, 1], [0, 1], [0, 3]]
     = Inr [[Finite (- 3), Finite (- 1)], [Finite (- 1), Finite (- 2)],
            [Finite (- 1), Finite (- 2)]] \<and>
   compute_loglik ex2_nb ex2_data [1, 1, 1] (log_mu ex2_m0) [[0, 1], [0, 1], [0, 3]]
     = Inr [[Finite 0, Finite (- 3)], [Finite (- 2), Finite (- 2)],
            [Finite (- 2), Finite (- 2)]] \<and>
   fsum [Finite (- 3), Finite (- 1)] = Finite (- 4) \<and>
   fsum [Finite 0, Finite (- 3)] = Finite (- 3) \<and>
   fsum [Finite (- 1), Finite (- 2)] = Finite (- 3) \<and>
   fsum [Finite (- 2), Finite (- 2)] = Finite (- 4) \<and>
   u_phi ex2_dr = [9 / 10, 1 / 2, 1 / 10] \<and>
   accept (9 / 10) (Finite (- 3)) (Finite (- 4)) \<and>
   \<not> accept (1 / 2) (Finite (- 4)) (Finite (- 3)) \<and>
   accept (1 / 10) (Finite (- 4)) (Finite (- 3)) \<and>
   log_phi ex2_m0 = [0, 0, 0] \<and>
   log_phi ex2_m2 ! 0 = 1 \<and> log_phi ex2_m2 ! 1 = 0 \<and> log_phi ex2_m2 ! 2 = 1 \<and>
   log_mu ex2_m2 = log_mu ex2_m0 \<and>
   log_mu ex2_m2 = [0, 0, 0] \<and> u_mu ex2_dr = [1 / 2, 1 / 2, 1 / 2] \<and>
   accept (1 / 2) (Finite (- 3)) (Finite (- 3)) \<and>
   log_mu ex2_m3 ! 0 = 1 \<and> log_mu ex2_m3 ! 1 = 0 \<and> log_mu ex2_m3 ! 2 = 1 \<and>
   log_phi ex2_m3 = log_phi ex2_m2 \<and>
   log_phi ex2_m1 = log_phi ex2_m2 \<and> log_mu ex2_m1 = log_mu ex2_m3 \<and>
   {u::real. 0 \<le> u \<and> u < 1 \<and> accept u (Finite (- 4)) (Finite (- 3))}
     = {u. 0 \<le> u \<and> u < exp (- 1)}"
proof -
  note t1 = metropolis_acceptance_per_feature[where nbinomln = ex2_nb and dat = ex2_data
      and lphi_p = "[1, 1, 1]" and us = "u_phi ex2_dr"
      and m = "ex2_m0\<lparr>iter := iter ex2_m0 + 1\<rparr>" and m' = ex2_m2 and lmu_p = "[1, 1, 1]"
      and dr = ex2_dr and ms = ex2_m0 and me = ex2_m1]
  note t2 = metropolis_acceptance_per_feature[where nbinomln = ex2_nb and dat = ex2_data
      and lphi_p = "[1, 1, 1]" and us = "u_mu ex2_dr"
      and m = ex2_m2 and m' = ex2_m3 and lmu_p = "[1, 1, 1]"
      and dr = ex2_dr and ms = ex2_m0 and me = ex2_m1]
  note r = t1[THEN conjunct2, THEN conjunct2, THEN conjunct2, THEN conjunct2]
  have fs: "fsum (map Finite xs) = Finite (sum_list xs)" for xs
    using r[THEN conjunct1] by (rule spec)
  have ac: "accept u (Finite a) (Finite b) = (b < a \<or> u < exp (a - b))" for u a b
    using r[THEN conjunct2, THEN conjunct1] by blast
  have iv: "{u. 0 \<le> u \<and> u < 1 \<and> accept u (Finite (- 4)) (Finite (- 3))}
      = {u. 0 \<le> u \<and> u < exp (- 4 - (- 3))}"
    using r[THEN conjunct2, THEN conjunct2, THEN conjunct1] by simp
  have s: "fsum [Finite (- 3), Finite (- 1)] = Finite (- 4)"
    "fsum [Finite 0, Finite (- 3)] = Finite (- 3)"
    "fsum [Finite (- 1), Finite (- 2)] = Finite (- 3)"
    "fsum [Finite (- 2), Finite (- 2)] = Finite (- 4)"
    using fs[of "[- 3, - 1]"] fs[of "[0, - 3]"] fs[of "[- 1, - 2]"] fs[of "[- 2, - 2]"]
    by simp_all
  have a: "accept (9 / 10) (Finite (- 3)) (Finite (- 4))"
    "\<not> accept (1 / 2) (Finite (- 4)) (Finite (- 3))"
    "accept (1 / 10) (Finite (- 4)) (Finite (- 3))"
    "accept (1 / 2) (Finite (- 3)) (Finite (- 3))"
    unfolding ac by (simp_all add: exp_bounds)
  from t1[THEN conjunct1, THEN mp, OF ex2_phi] obtain bz ll llp where
    g: "getitems2 (beta (ex2_m0\<lparr>iter := iter ex2_m0 + 1\<rparr>))
          (transpose (z (ex2_m0\<lparr>iter := iter ex2_m0 + 1\<rparr>))) = Inr bz"
    and l1: "compute_loglik ex2_nb ex2_data (log_phi (ex2_m0\<lparr>iter := iter ex2_m0 + 1\<rparr>))
          (log_mu (ex2_m0\<lparr>iter := iter ex2_m0 + 1\<rparr>)) bz = Inr ll"
    and l2: "compute_loglik ex2_nb ex2_data [1, 1, 1]
          (log_mu (ex2_m0\<lparr>iter := iter ex2_m0 + 1\<rparr>)) bz = Inr llp"
    and e: "\<forall>f<length (log_phi (ex2_m0\<lparr>iter := iter ex2_m0 + 1\<rparr>)).
          log_phi ex2_m2 ! f =
            (if accept (u_phi ex2_dr ! f) (fsum (llp ! f)) (fsum (ll ! f)) then [1, 1, 1] ! f
             else log_phi (ex2_m0\<lparr>iter := iter ex2_m0 + 1\<rparr>) ! f)"
    and k: "log_mu ex2_m2 = log_mu (ex2_m0\<lparr>iter := iter ex2_m0 + 1\<rparr>)"
    by blast
  have bz: "bz = [[0, 1], [0, 1], [0, 3]]" using g by (simp add: ex2_loglik_phi)
  have ll: "ll = [[Finite (- 3), Finite (- 1)], [Finite (- 1), Finite (- 2)],
                  [Finite (- 1), Finite (- 2)]]"
    using l1 unfolding bz by (simp add: ex2_loglik_phi)
  have llp: "llp = [[Finite 0, Finite (- 3)], [Finite (- 2), Finite (- 2)],
                    [Finite (- 2), Finite (- 2)]]"
    using l2 unfolding bz by (simp add: ex2_loglik_phi)
  have p: "log_phi ex2_m2 ! 0 = 1" "log_phi ex2_m2 ! 1 = 0" "log_phi ex2_m2 ! 2 = 1"
    using e[rule_format, of 0] e[rule_format, of 1] e[rule_format, of 2]
    unfolding ll llp by (simp_all add: ex2_logs_values ex2_draws s a)
  from t2[THEN conjunct2, THEN conjunct1, THEN mp, OF ex2_mu] obtain bz' ll' llp' where
    g': "getitems2 (beta ex2_m2) (transpose (z ex2_m2)) = Inr bz'"
    and l1': "compute_loglik ex2_nb ex2_data (log_phi ex2_m2) (log_mu ex2_m2) bz' = Inr ll'"
    and l2': "compute_loglik ex2_nb ex2_data (log_phi ex2_m2) [1, 1, 1] bz' = Inr llp'"
    and e': "\<forall>f<length (log_mu ex2_m2).
          log_mu ex2_m3 ! f =
            (if accept (u_mu ex2_dr ! f) (fsum (llp' ! f)) (fsum (ll' ! f)) then [1, 1, 1] ! f
             else log_mu ex2_m2 ! f)"
    and k': "log_phi ex2_m3 = log_phi ex2_m2"
    by blast
  have bz': "bz' = [[0, 1], [0, 1], [0, 3]]" using g' by (simp add: ex2_loglik_mu)
  have ll': "ll' = [[Finite 0, Finite (- 3)], [Finite (- 1), Finite (- 2)],
                    [Finite (- 2), Finite (- 2)]]"
    using l1' unfolding bz' by (simp add: ex2_loglik_mu)
  have llp': "llp' = [[Finite 0, Finite (- 3)], [Finite (- 2), Finite (- 2)],
                      [Finite (- 2), Finite (- 2)]]"
    using l2' unfolding bz' by (simp add: ex2_loglik_mu)
  have q: "log_mu ex2_m3 ! 0 = 1" "log_mu ex2_m3 ! 1 = 0" "log_mu ex2_m3 ! 2 = 1"
    using e'[rule_format, of 0] e'[rule_format, of 1] e'[rule_format, of 2]
    unfolding ll' llp' by (simp_all add: ex2_logs_values ex2_draws s a)
  from r[THEN conjunct2, THEN conjunct2, THEN conjunct2, THEN mp, OF ex2_update]
  obtain m2 m3 where
    w: "update_phi ex2_nb ex2_data
          (rn_normal_phi ex2_dr (mu1 ex2_m0) (1 / sqrt (tau1 ex2_m0)) (nfeatures ex2_m0))
          (u_phi ex2_dr) (ex2_m0\<lparr>iter := iter ex2_m0 + 1\<rparr>) = Inr m2"
      "update_mu ex2_nb ex2_data
          (rn_normal_mu ex2_dr (mu2 ex2_m0) (1 / sqrt (tau2 ex2_m0)) (nfeatures ex2_m0))
          (u_mu ex2_dr) m2 = Inr m3"
      "log_phi ex2_m1 = log_phi m2" "log_mu ex2_m1 = log_mu m3"
    by blast
  have m2: "m2 = ex2_m2" using w(1) unfolding ex2_draws(1) ex2_phi by simp
  have m3: "m3 = ex2_m3" using w(2) unfolding ex2_draws(2) m2 ex2_mu by simp
  have x: "log_phi ex2_m1 = log_phi ex2_m2" "log_mu ex2_m1 = log_mu ex2_m3"
    using w(3,4) m2 m3 by simp_all
  have k0: "log_mu ex2_m2 = log_mu ex2_m0" using k by simp
  have iv': "{u::real. 0 \<le> u \<and> u < 1 \<and> accept u (Finite (- 4)) (Finite (- 3))}
     = {u. 0 \<le> u \<and> u < exp (- 1)}" using iv by simp
  show ?thesis
    using ex2_update ex2_draws(1,2,4,5) ex2_phi ex2_mu ex2_loglik_phi(2,3) s a p q k0 k' x iv'
      ex2_logs_values(1,4)
    by simp
qed

text \<open>
  C7 (amended). A likelihood that is not finite does not make \<^verbatim>\<open>_update_phi\<close> or
  \<^verbatim>\<open>_update_mu\<close> raise: whether they return does not depend on the values of the
  kernel (\<open>nbinomln'\<close> is any other kernel). A feature whose current or proposed
  total log-likelihood is NaN fails the Metropolis test and keeps its current value.
\<close>

theorem nan_likelihood_is_rejected_not_raised:
  "(update_phi nbinomln dat lphi_p us m = Inr m' \<longrightarrow>
      (\<exists>bz ll llp.
         getitems2 (beta m) (transpose (z m)) = Inr bz \<and>
         compute_loglik nbinomln dat (log_phi m) (log_mu m) bz = Inr ll \<and>
         compute_loglik nbinomln dat lphi_p (log_mu m) bz = Inr llp \<and>
         (\<forall>f<length (log_phi m).
            fsum (ll ! f) = NaN \<or> fsum (llp ! f) = NaN \<longrightarrow> log_phi m' ! f = log_phi m ! f)) \<and>
      (\<exists>m''. update_phi nbinomln' dat lphi_p us m = Inr m'')) \<and>
   (update_mu nbinomln dat lmu_p us m = Inr m' \<longrightarrow>
      (\<exists>bz ll llp.
         getitems2 (beta m) (transpose (z m)) = Inr bz \<and>
         compute_loglik nbinomln dat (log_phi m) (log_mu m) bz = Inr ll \<and>
         compute_loglik nbinomln dat (log_phi m) lmu_p bz = Inr llp \<and>
         (\<forall>f<length (log_mu m).
            fsum (ll ! f) = NaN \<or> fsum (llp ! f) = NaN \<longrightarrow> log_mu m' ! f = log_mu m ! f)) \<and>
      (\<exists>m''. update_mu nbinomln' dat lmu_p us m = Inr m''))"
proof (intro conjI impI)
  assume u: "update_phi nbinomln dat lphi_p us m = Inr m'"
  from update_phi_feature[OF u] obtain bz ll llp where
    s: "getitems2 (beta m) (transpose (z m)) = Inr bz"
      "compute_loglik nbinomln dat (log_phi m) (log_mu m) bz = Inr ll"
      "compute_loglik nbinomln dat lphi_p (log_mu m) bz = Inr llp"
    and v: "\<forall>f<length (log_phi m). log_phi m' ! f =
              (if accept (us ! f) (fsum (llp ! f)) (fsum (ll ! f)) then lphi_p ! f
               else log_phi m ! f)" by blast
  have "\<forall>f<length (log_phi m).
      fsum (ll ! f) = NaN \<or> fsum (llp ! f) = NaN \<longrightarrow> log_phi m' ! f = log_phi m ! f"
    using v accept_nan by auto
  then show "\<exists>bz ll llp.
         getitems2 (beta m) (transpose (z m)) = Inr bz \<and>
         compute_loglik nbinomln dat (log_phi m) (log_mu m) bz = Inr ll \<and>
         compute_loglik nbinomln dat lphi_p (log_mu m) bz = Inr llp \<and>
         (\<forall>f<length (log_phi m).
            fsum (ll ! f) = NaN \<or> fsum (llp ! f) = NaN \<longrightarrow> log_phi m' ! f = log_phi m ! f)"
    using s by blast
  show "\<exists>m''. update_phi nbinomln' dat lphi_p us m = Inr m''"
    using update_phi_kernel[OF u] .
next
  assume u: "update_mu nbinomln dat lmu_p us m = Inr m'"
  from update_mu_feature[OF u] obtain bz ll llp where
    s: "getitems2 (beta m) (transpose (z m)) = Inr bz"
      "compute_loglik nbinomln dat (log_phi m) (log_mu m) bz = Inr ll"
      "compute_loglik nbinomln dat (log_phi m) lmu_p bz = Inr llp"
    and v: "\<forall>f<length (log_mu m). log_mu m' ! f =
              (if accept (us ! f) (fsum (llp ! f)) (fsum (ll ! f)) then lmu_p ! f
               else log_mu m ! f)" by blast
  have "\<forall>f<length (log_mu m).
      fsum (ll ! f) = NaN \<or> fsum (llp ! f) = NaN \<longrightarrow> log_mu m' ! f = log_mu m ! f"
    using v accept_nan by auto
  then show "\<exists>bz ll llp.
         getitems2 (beta m) (transpose (z m)) = Inr bz \<and>
         compute_loglik nbinomln dat (log_phi m) (log_mu m) bz = Inr ll \<and>
         compute_loglik nbinomln dat (log_phi m) lmu_p bz = Inr llp \<and>
         (\<forall>f<length (log_mu m).
            fsum (ll ! f) = NaN \<or> fsum (llp ! f) = NaN \<longrightarrow> log_mu m' ! f = log_mu m ! f)"
    using s by blast
  show "\<exists>m''. update_mu nbinomln' dat lmu_p us m = Inr m''"
    using update_mu_kernel[OF u] .
qed

text \<open>
  C7 as stated fails: in the small run the kernel returns NaN for the second feature
  in the first evaluation of \<^verbatim>\<open>_update_phi\<close>, and the sweep returns the state \<open>ex_m1\<close>,
  no error.
\<close>

theorem nonfinite_likelihood_aborts_counterexample:
  "getitems2 (beta ex_m0) (transpose (z ex_m0)) = Inr [[0, 1], [0, 1]] \<and>
   compute_loglik ex_nb ex_data (log_phi ex_m0) (log_mu ex_m0) [[0, 1], [0, 1]]
     = Inr [[Finite 0, Finite 0], [NaN, NaN]] \<and>
   update ex_nb ex_data ex_dr ex_m0 = Inr ex_m1"
  using ex_loglik ex_update by simp

theorem nan_likelihood_is_rejected_not_raised_witness:
  "update_phi ex_nb ex_data (propose_log_phi ex_dr (ex_m0\<lparr>iter := iter ex_m0 + 1\<rparr>)) (u_phi ex_dr) (ex_m0\<lparr>iter := iter ex_m0 + 1\<rparr>)
     = Inr ex_m2 \<and>
   fsum [NaN, NaN] = NaN \<and> log_phi ex_m2 ! 1 = log_phi ex_m0 ! 1 \<and>
   update_mu ex_nb ex_data (propose_log_mu ex_dr ex_m2) (u_mu ex_dr) ex_m2 = Inr ex_m3 \<and>
   log_mu ex_m3 ! 1 = log_mu ex_m2 ! 1 \<and>
   (\<exists>m''. update_phi (\<lambda>cnt a p. Finite 0) ex_data (propose_log_phi ex_dr (ex_m0\<lparr>iter := iter ex_m0 + 1\<rparr>)) (u_phi ex_dr)
            (ex_m0\<lparr>iter := iter ex_m0 + 1\<rparr>) = Inr m'') \<and>
   (\<exists>m''. update_mu (\<lambda>cnt a p. Finite 0) ex_data (propose_log_mu ex_dr ex_m2) (u_mu ex_dr) ex_m2 = Inr m'')"
proof -
  note t1 = nan_likelihood_is_rejected_not_raised[of ex_nb ex_data "propose_log_phi ex_dr (ex_m0\<lparr>iter := iter ex_m0 + 1\<rparr>)"
      "u_phi ex_dr" "ex_m0\<lparr>iter := iter ex_m0 + 1\<rparr>" ex_m2 "\<lambda>cnt a p. Finite 0"
      "propose_log_mu ex_dr ex_m2"]
  note t2 = nan_likelihood_is_rejected_not_raised[of ex_nb ex_data "propose_log_phi ex_dr (ex_m0\<lparr>iter := iter ex_m0 + 1\<rparr>)"
      "u_mu ex_dr" ex_m2 ex_m3 "\<lambda>cnt a p. Finite 0" "propose_log_mu ex_dr ex_m2"]
  from t1 ex_phi have k1: "\<exists>m''. update_phi (\<lambda>cnt a p. Finite 0) ex_data (propose_log_phi ex_dr (ex_m0\<lparr>iter := iter ex_m0 + 1\<rparr>))
      (u_phi ex_dr) (ex_m0\<lparr>iter := iter ex_m0 + 1\<rparr>) = Inr m''" by blast
  from t2 ex_mu have k2: "\<exists>m''. update_mu (\<lambda>cnt a p. Finite 0) ex_data (propose_log_mu ex_dr ex_m2)
      (u_mu ex_dr) ex_m2 = Inr m''" by blast
  have f: "fsum [NaN, NaN] = NaN" "log_phi ex_m2 ! 1 = log_phi ex_m0 ! 1"
    "log_mu ex_m3 ! 1 = log_mu ex_m2 ! 1"
    by (simp_all add: fsum_def ex_m0_def ex_m2_def ex_m3_def)
  show ?thesis using ex_phi ex_mu k1 k2 f by simp
qed

text \<open>
  C2 (amended). A call of \<^verbatim>\<open>_update_group_vars\<close> writes into two of the arrays it is
  given, \<open>d\<close> and \<open>c\<close>, and into nothing else: the float arrays (\<open>lu\<close>, the library
  sizes, \<open>log_phi\<close>, \<open>log_mu\<close>, \<open>beta\<close>, \<open>lw\<close>), the counts and every other integer
  array are as before the call. The \<open>c\<close> and \<open>d\<close> it returns are its arguments, and
  (for \<open>c\<close> and \<open>d\<close> two arrays) their contents after the call, with the returned
  \<^verbatim>\<open>c[d]\<close>, \<open>lu\<close> and \<open>zeta\<close>, are the result of the function \<open>update_group_vars\<close> of
  the contents before the call.
\<close>

theorem group_update_writes_into_its_c_and_d:
  assumes "update_group_vars_st nbinomln gd r s = Inr (res, s')"
  shows "reals s' = reals s \<and> mats s' = mats s \<and>
         (\<forall>a. a \<noteq> c_ref r \<and> a \<noteq> d_ref r \<longrightarrow> ints s' a = ints s a) \<and>
         fst res = c_ref r \<and> fst (snd res) = d_ref r \<and>
         (c_ref r \<noteq> d_ref r \<longrightarrow>
            update_group_vars nbinomln gd (args_of r s)
              = Inr (ints s' (c_ref r), ints s' (d_ref r), snd (snd res)))"
  using assms
  by (auto simp: update_group_vars_st_def update_group_vars_def args_of_def rbind_Inr Let_def
      set_ints_simps store_loglik_set_ints store_loglik_def split: if_splits)

text \<open>
  C2 as stated fails: the call for group 1 of the small run finds \<open>[1, 1]\<close> in its
  argument \<open>d\<close> and leaves \<open>[0, 1]\<close> there.
\<close>

theorem group_update_leaves_its_inputs_counterexample:
  "update_group_vars_st ex_nb ex_gd ex_refs ex_store =
     Inr ((0, 1, [0, 1], [- 1, - 1], ln 2), ex_store2) \<and>
   d_ref ex_refs = 1 \<and> ints ex_store 1 = [1, 1] \<and> ints ex_store2 1 = [0, 1]"
  using ex_group_st
  by (simp add: ex_store2_def ex_store_def ex_refs_def set_ints_def)

theorem group_update_writes_into_its_c_and_d_witness:
  "update_group_vars_st ex_nb ex_gd ex_refs ex_store =
     Inr ((0, 1, [0, 1], [- 1, - 1], ln 2), ex_store2) \<and>
   reals ex_store2 = reals ex_store \<and> mats ex_store2 = mats ex_store \<and>
   ints ex_store2 2 = ints ex_store 2 \<and>
   update_group_vars ex_nb ex_gd (args_of ex_refs ex_store)
     = Inr (ints ex_store2 0, ints ex_store2 1, [0, 1], [- 1, - 1], ln 2)"
proof -
  note t = group_update_writes_into_its_c_and_d[OF ex_group_st]
  have r: "c_ref ex_refs = 0" "d_ref ex_refs = 1" by (simp_all add: ex_refs_def)
  from t have 1: "reals ex_store2 = reals ex_store" "mats ex_store2 = mats ex_store" by blast+
  from t r have 2: "ints ex_store2 2 = ints ex_store 2" by simp
  from t r have 3: "update_group_vars ex_nb ex_gd (args_of ex_refs ex_store)
     = Inr (ints ex_store2 0, ints ex_store2 1, [0, 1], [- 1, - 1], ln 2)" by simp
  show ?thesis using ex_group_st 1 2 3 by simp
qed



end
